theory Spec2Isabelle
  imports Main
begin

section \<open>Results: values, thrown errors, divergence\<close>

text \<open>
  A call of the program either returns, throws, or never returns.  Loops that walk
  pointer chains are given a budget of iterations; \<open>Timeout\<close> is the answer of a loop
  whose budget ran out, so a call diverges when it answers \<open>Timeout\<close> for every budget.
  \<open>Thrown m\<close> is \<open>throw new Error(m)\<close>, \<open>NullDeref\<close> is the TypeError of reading a
  property of \<open>undefined\<close>, and \<open>Balancing e\<close> is the error that \<open>BB.balance\<close> rethrows
  around a cause \<open>e\<close>.
\<close>

datatype error = Thrown string | NullDeref | Balancing error

datatype 'a res = Ret 'a | Throw error | Timeout

definition res_bind :: "'a res \<Rightarrow> ('a \<Rightarrow> 'b res) \<Rightarrow> 'b res" where
  "res_bind m f = (case m of Ret x \<Rightarrow> f x | Throw e \<Rightarrow> Throw e | Timeout \<Rightarrow> Timeout)"

definition deref :: "'a option \<Rightarrow> ('a \<Rightarrow> 'b res) \<Rightarrow> 'b res" where
  "deref r f = (case r of None \<Rightarrow> Throw NullDeref | Some x \<Rightarrow> f x)"

section \<open>Core types\<close>

datatype SearchType =
  LesserThanOrEqualsTo | EqualsTo | GreaterThanOrEqualsTo | LesserThan | GreaterThan

text \<open>
  Objects live in a store and are named by their index in it; a field that may be
  \<open>undefined\<close> is an \<open>option\<close>.  Field names carry a prefix for their class:
  \<open>ln_\<close> for \<open>LinkedNode\<close>, \<open>sl_\<close> for \<open>SortedLinkedList\<close>, \<open>bc_\<close> for
  \<open>BPlusCell\<close>, \<open>bn_\<close> for \<open>BPlusNode\<close>, \<open>bt_\<close> for \<open>BPlusTree\<close>.
\<close>

record 'k LinkedNode =
  ln_rightSibling :: "nat option"
  ln_leftSibling :: "nat option"
  ln_duplicate_count :: int
  ln_key :: 'k

record SortedLinkedList =
  sl_min :: "nat option"
  sl_max :: "nat option"
  sl_count :: int

record 'k llstore =
  lnodes :: "'k LinkedNode list"
  lists :: "SortedLinkedList list"

definition new_LinkedNode :: "'k \<Rightarrow> 'k LinkedNode" where
  "new_LinkedNode k =
     \<lparr>ln_rightSibling = None, ln_leftSibling = None, ln_duplicate_count = 0, ln_key = k\<rparr>"

definition new_SortedLinkedList :: SortedLinkedList where
  "new_SortedLinkedList = \<lparr>sl_min = None, sl_max = None, sl_count = 0\<rparr>"

definition alloc_lnode :: "'k \<Rightarrow> ('k, 'm) llstore_scheme \<Rightarrow> nat \<times> ('k, 'm) llstore_scheme" where
  "alloc_lnode k s = (length (lnodes s), s\<lparr>lnodes := lnodes s @ [new_LinkedNode k]\<rparr>)"

definition alloc_list :: "('k, 'm) llstore_scheme \<Rightarrow> nat \<times> ('k, 'm) llstore_scheme" where
  "alloc_list s = (length (lists s), s\<lparr>lists := lists s @ [new_SortedLinkedList]\<rparr>)"

definition upd_lnode ::
  "nat \<Rightarrow> ('k LinkedNode \<Rightarrow> 'k LinkedNode) \<Rightarrow> ('k, 'm) llstore_scheme \<Rightarrow> ('k, 'm) llstore_scheme" where
  "upd_lnode r f s = s\<lparr>lnodes := (lnodes s)[r := f (lnodes s ! r)]\<rparr>"

definition upd_lnode_opt ::
  "nat option \<Rightarrow> ('k LinkedNode \<Rightarrow> 'k LinkedNode) \<Rightarrow> ('k, 'm) llstore_scheme \<Rightarrow> ('k, 'm) llstore_scheme" where
  "upd_lnode_opt r f s = (case r of None \<Rightarrow> s | Some n \<Rightarrow> upd_lnode n f s)"

definition upd_list ::
  "nat \<Rightarrow> (SortedLinkedList \<Rightarrow> SortedLinkedList) \<Rightarrow> ('k, 'm) llstore_scheme \<Rightarrow> ('k, 'm) llstore_scheme" where
  "upd_list r f s = s\<lparr>lists := (lists s)[r := f (lists s ! r)]\<rparr>"

section \<open>The sorted linked list engine (namespace LL)\<close>

text \<open>
  The scanning loop of \<open>LL.search\<close>; the triple is \<open>(eq, lte, gte)\<close>.
\<close>

fun search_loop ::
  "nat \<Rightarrow> ('k \<Rightarrow> 'k \<Rightarrow> int) \<Rightarrow> 'k \<Rightarrow> SearchType \<Rightarrow> 'k LinkedNode list \<Rightarrow> nat option \<Rightarrow>
   nat option \<times> nat option \<times> nat option \<Rightarrow> (nat option \<times> nat option \<times> nat option) res" where
  "search_loop 0 compare searchKey searchType ns current_node acc = Timeout"
| "search_loop (Suc fuel) compare searchKey searchType ns current_node (eq, lte, gte) =
     (case current_node of
        None \<Rightarrow> Ret (eq, lte, gte)
      | Some c \<Rightarrow>
          (let compareResult = compare searchKey (ln_key (ns ! c)) in
           if compareResult = 0 then
             (if searchType = GreaterThan
              then search_loop fuel compare searchKey searchType ns (ln_rightSibling (ns ! c)) (eq, lte, gte)
              else Ret (Some c, lte, gte))
           else if compareResult > 0 then
             search_loop fuel compare searchKey searchType ns (ln_rightSibling (ns ! c)) (eq, Some c, gte)
           else Ret (eq, lte, Some c)))"

definition or_else :: "'a option \<Rightarrow> 'a option \<Rightarrow> 'a option" where
  "or_else a b = (case a of None \<Rightarrow> b | Some x \<Rightarrow> Some x)"

definition LL_search ::
  "nat \<Rightarrow> ('k \<Rightarrow> 'k \<Rightarrow> int) \<Rightarrow> nat \<Rightarrow> 'k \<Rightarrow> SearchType \<Rightarrow> ('k, 'm) llstore_scheme \<Rightarrow> nat option res" where
  "LL_search fuel compare list searchKey searchType s =
     (case sl_min (lists s ! list) of
        None \<Rightarrow> Ret None
      | Some m \<Rightarrow>
          res_bind (search_loop fuel compare searchKey searchType (lnodes s) (Some m) (None, None, None))
            (\<lambda>(eq, lte, gte).
               Ret (case searchType of
                      LesserThanOrEqualsTo \<Rightarrow> or_else eq lte
                    | EqualsTo \<Rightarrow> eq
                    | GreaterThanOrEqualsTo \<Rightarrow> or_else eq gte
                    | LesserThan \<Rightarrow> lte
                    | GreaterThan \<Rightarrow> gte)))"

definition LL_insert ::
  "nat \<Rightarrow> ('k \<Rightarrow> 'k \<Rightarrow> int) \<Rightarrow> nat \<Rightarrow> 'k \<Rightarrow> ('k, 'm) llstore_scheme \<Rightarrow>
   (nat \<times> ('k, 'm) llstore_scheme) res" where
  "LL_insert fuel compare list key s0 =
     (let (newNode, s1) = alloc_lnode key s0;
          count_incr = upd_list list (\<lambda>l. l\<lparr>sl_count := sl_count l + 1\<rparr>)
      in case sl_min (lists s1 ! list) of
           None \<Rightarrow>
             Ret (newNode,
                  count_incr (upd_list list (\<lambda>l. l\<lparr>sl_min := Some newNode, sl_max := Some newNode\<rparr>) s1))
         | Some m \<Rightarrow>
             res_bind (LL_search fuel compare list key LesserThanOrEqualsTo s1)
               (\<lambda>foundNode.
                  case foundNode of
                    None \<Rightarrow>
                      (let s2 = upd_lnode m (\<lambda>n. n\<lparr>ln_leftSibling := Some newNode\<rparr>) s1;
                           s3 = upd_lnode newNode (\<lambda>n. n\<lparr>ln_rightSibling := Some m\<rparr>) s2;
                           s4 = upd_list list (\<lambda>l. l\<lparr>sl_min := Some newNode\<rparr>) s3
                       in Ret (newNode, count_incr s4))
                  | Some f \<Rightarrow>
                      if compare key (ln_key (lnodes s1 ! f)) = 0 then
                        (let s2 = upd_lnode f (\<lambda>n. n\<lparr>ln_duplicate_count := ln_duplicate_count n + 1\<rparr>) s1;
                             s3 = upd_list list (\<lambda>l. l\<lparr>sl_count := sl_count l - 1\<rparr>) s2;
                             s4 = upd_lnode f (\<lambda>n. n\<lparr>ln_key := ln_key (lnodes s3 ! newNode)\<rparr>) s3
                         in Ret (f, s4))
                      else
                        (let right_sibling = ln_rightSibling (lnodes s1 ! f);
                             s2 = upd_lnode f (\<lambda>n. n\<lparr>ln_rightSibling := Some newNode\<rparr>) s1;
                             s3 = upd_lnode newNode (\<lambda>n. n\<lparr>ln_leftSibling := Some f\<rparr>) s2;
                             s4 = upd_lnode newNode (\<lambda>n. n\<lparr>ln_rightSibling := right_sibling\<rparr>) s3;
                             s5 = upd_lnode_opt right_sibling (\<lambda>n. n\<lparr>ln_leftSibling := Some newNode\<rparr>) s4;
                             s6 = (if Some f = sl_max (lists s5 ! list)
                                   then upd_list list (\<lambda>l. l\<lparr>sl_max := Some newNode\<rparr>) s5 else s5)
                         in Ret (newNode, count_incr s6))))"

text \<open>
  \<open>LL.deleteNode\<close> returns a detached copy of the removed node (a new object), or
  nothing when the key is not found.
\<close>

definition LL_deleteNode ::
  "nat \<Rightarrow> ('k \<Rightarrow> 'k \<Rightarrow> int) \<Rightarrow> nat \<Rightarrow> 'k \<Rightarrow> ('k, 'm) llstore_scheme \<Rightarrow>
   (nat option \<times> ('k, 'm) llstore_scheme) res" where
  "LL_deleteNode fuel compare list key s0 =
     res_bind (LL_search fuel compare list key EqualsTo s0)
       (\<lambda>found.
          case found of
            None \<Rightarrow> Ret (None, s0)
          | Some nodeToDelete \<Rightarrow>
              (let (deletedNode, s1) = alloc_lnode (ln_key (lnodes s0 ! nodeToDelete)) s0;
                   s2 = upd_lnode deletedNode
                          (\<lambda>n. n\<lparr>ln_duplicate_count := ln_duplicate_count (lnodes s1 ! nodeToDelete)\<rparr>) s1;
                   s3 =
                     (if sl_count (lists s2 ! list) = 1 then
                        upd_list list (\<lambda>l. l\<lparr>sl_min := None, sl_max := None\<rparr>) s2
                      else
                        (let a =
                               (if Some nodeToDelete = sl_min (lists s2 ! list) then
                                  (let oldMin = nodeToDelete;
                                       a1 = upd_list list
                                              (\<lambda>l. l\<lparr>sl_min := ln_rightSibling (lnodes s2 ! nodeToDelete)\<rparr>) s2;
                                       a2 = upd_lnode_opt (ln_rightSibling (lnodes a1 ! oldMin))
                                              (\<lambda>n. n\<lparr>ln_leftSibling := None\<rparr>) a1
                                   in upd_lnode oldMin (\<lambda>n. n\<lparr>ln_rightSibling := None\<rparr>) a2)
                                else if Some nodeToDelete = sl_max (lists s2 ! list) then
                                  (let oldMax = nodeToDelete;
                                       a1 = upd_list list
                                              (\<lambda>l. l\<lparr>sl_max := ln_leftSibling (lnodes s2 ! nodeToDelete)\<rparr>) s2;
                                       a2 = upd_lnode_opt (ln_leftSibling (lnodes a1 ! oldMax))
                                              (\<lambda>n. n\<lparr>ln_rightSibling := None\<rparr>) a1
                                   in upd_lnode oldMax (\<lambda>n. n\<lparr>ln_leftSibling := None\<rparr>) a2)
                                else s2);
                             left_sibling = ln_leftSibling (lnodes a ! nodeToDelete);
                             right_sibling = ln_rightSibling (lnodes a ! nodeToDelete);
                             b1 = upd_lnode_opt left_sibling (\<lambda>n. n\<lparr>ln_rightSibling := right_sibling\<rparr>) a;
                             b2 = upd_lnode_opt right_sibling (\<lambda>n. n\<lparr>ln_leftSibling := left_sibling\<rparr>) b1;
                             b3 = upd_lnode nodeToDelete (\<lambda>n. n\<lparr>ln_leftSibling := None\<rparr>) b2
                         in upd_lnode nodeToDelete (\<lambda>n. n\<lparr>ln_rightSibling := None\<rparr>) b3));
                   s4 = upd_list list
                          (\<lambda>l. l\<lparr>sl_count := sl_count l - (ln_duplicate_count (lnodes s3 ! deletedNode) + 1)\<rparr>) s3
               in Ret (Some deletedNode, s4)))"

text \<open>
  \<open>LL.splitAt\<close>.  The counted loop steps \<open>minOfRightPortion\<close> to the right once for
  every \<open>i\<close> from \<open>0\<close> to \<open>splitAfterIndex\<close>, staying at \<open>undefined\<close> once it is
  reached.
\<close>

fun step_right :: "nat \<Rightarrow> 'k LinkedNode list \<Rightarrow> nat option \<Rightarrow> nat option" where
  "step_right 0 ns p = p"
| "step_right (Suc n) ns p =
     step_right n ns (case p of None \<Rightarrow> None | Some a \<Rightarrow> ln_rightSibling (ns ! a))"

definition LL_splitAt ::
  "nat \<Rightarrow> int \<Rightarrow> ('k, 'm) llstore_scheme \<Rightarrow> ((nat \<times> nat) \<times> ('k, 'm) llstore_scheme) res" where
  "LL_splitAt listToSplit splitAfterIndex s0 =
     (if sl_count (lists s0 ! listToSplit) < 2 then
        Throw (Thrown ''Size of List to be split must be at least 2'')
      else if \<not> (splitAfterIndex < sl_count (lists s0 ! listToSplit) - 1) then
        (if splitAfterIndex = sl_count (lists s0 ! listToSplit) - 1 then
           (let (r, s1) = alloc_list s0 in Ret ((listToSplit, r), s1))
         else Throw (Thrown ''splitAtIndex must be less than listToSplit.count-1''))
      else
        (let origSize = sl_count (lists s0 ! listToSplit);
             minOfRightPortion =
               step_right (nat (splitAfterIndex + 1)) (lnodes s0) (sl_min (lists s0 ! listToSplit));
             maxOfLeftPortion =
               (case minOfRightPortion of None \<Rightarrow> None | Some a \<Rightarrow> ln_leftSibling (lnodes s0 ! a));
             s1 = upd_lnode_opt maxOfLeftPortion (\<lambda>n. n\<lparr>ln_rightSibling := None\<rparr>) s0;
             s2 = upd_lnode_opt minOfRightPortion (\<lambda>n. n\<lparr>ln_leftSibling := None\<rparr>) s1;
             s3 = upd_list listToSplit (\<lambda>l. l\<lparr>sl_count := splitAfterIndex + 1\<rparr>) s2;
             s4 = upd_list listToSplit (\<lambda>l. l\<lparr>sl_max := maxOfLeftPortion\<rparr>) s3;
             (rightPortion, s5) = alloc_list s4;
             s6 = upd_list rightPortion (\<lambda>l. l\<lparr>sl_min := minOfRightPortion\<rparr>) s5;
             s7 = upd_list rightPortion (\<lambda>l. l\<lparr>sl_max := sl_max (lists s6 ! listToSplit)\<rparr>) s6;
             s8 = upd_list rightPortion (\<lambda>l. l\<lparr>sl_count := origSize - splitAfterIndex - 1\<rparr>) s7
         in Ret ((listToSplit, rightPortion), s8)))"

definition LL_mergeSplittedRightIntoLeft ::
  "nat \<Rightarrow> nat \<Rightarrow> ('k, 'm) llstore_scheme \<Rightarrow> nat \<times> ('k, 'm) llstore_scheme" where
  "LL_mergeSplittedRightIntoLeft leftlist rightlist s0 =
     (if sl_count (lists s0 ! rightlist) = 0 then (leftlist, s0)
      else
        (let s1 = upd_lnode_opt (sl_max (lists s0 ! leftlist))
                    (\<lambda>n. n\<lparr>ln_rightSibling := sl_min (lists s0 ! rightlist)\<rparr>) s0;
             s2 = upd_lnode_opt (sl_min (lists s1 ! rightlist))
                    (\<lambda>n. n\<lparr>ln_leftSibling := sl_max (lists s1 ! leftlist)\<rparr>) s1;
             s3 = upd_list leftlist (\<lambda>l. l\<lparr>sl_max := sl_max (lists s2 ! rightlist)\<rparr>) s2;
             s4 = upd_list leftlist (\<lambda>l. l\<lparr>sl_count := sl_count l + sl_count (lists s3 ! rightlist)\<rparr>) s3
         in (leftlist, s4)))"

definition LL_mergeSplittedLeftIntoRight ::
  "nat \<Rightarrow> nat \<Rightarrow> ('k, 'm) llstore_scheme \<Rightarrow> nat \<times> ('k, 'm) llstore_scheme" where
  "LL_mergeSplittedLeftIntoRight leftlist rightlist s0 =
     (if sl_count (lists s0 ! leftlist) = 0 then (rightlist, s0)
      else
        (let s1 = upd_lnode_opt (sl_max (lists s0 ! leftlist))
                    (\<lambda>n. n\<lparr>ln_rightSibling := sl_min (lists s0 ! rightlist)\<rparr>) s0;
             s2 = upd_lnode_opt (sl_min (lists s1 ! rightlist))
                    (\<lambda>n. n\<lparr>ln_leftSibling := sl_max (lists s1 ! leftlist)\<rparr>) s1;
             s3 = upd_list rightlist (\<lambda>l. l\<lparr>sl_min := sl_min (lists s2 ! leftlist)\<rparr>) s2;
             s4 = upd_list rightlist (\<lambda>l. l\<lparr>sl_count := sl_count l + sl_count (lists s3 ! leftlist)\<rparr>) s3
         in (rightlist, s4)))"

text \<open>
  \<open>LL.searchTillStream\<close>.  The keys of a node's cell list are cell objects, so the
  tests \<open>!startKey\<close> and \<open>!endKey\<close> are tests for absence.  \<open>replicate\<close> is the inner loop
  that pushes a key once for each of its duplicates.
\<close>

fun stream_loop ::
  "nat \<Rightarrow> ('k \<Rightarrow> 'k \<Rightarrow> int) \<Rightarrow> bool \<Rightarrow> 'k LinkedNode list \<Rightarrow> 'k \<Rightarrow> nat option \<Rightarrow> 'k list \<Rightarrow> 'k list res" where
  "stream_loop 0 compare dups ns endKey currentNode result = Timeout"
| "stream_loop (Suc fuel) compare dups ns endKey currentNode result =
     (case currentNode of
        None \<Rightarrow> Ret result
      | Some c \<Rightarrow>
          (let cr = compare endKey (ln_key (ns ! c)) in
           if cr \<ge> 0 then
             (let res = ns ! c;
                  countOfDuplicates = (if ln_duplicate_count res = 0 then 0 else ln_duplicate_count res) + 1
              in stream_loop fuel compare dups ns endKey (ln_rightSibling res)
                   (result @ (if dups then replicate (nat countOfDuplicates) (ln_key res) else [ln_key res])))
           else stream_loop fuel compare dups ns endKey None result))"

definition LL_searchTillStream ::
  "nat \<Rightarrow> ('k \<Rightarrow> 'k \<Rightarrow> int) \<Rightarrow> nat \<Rightarrow> 'k option \<Rightarrow> 'k option \<Rightarrow> bool \<Rightarrow> ('k, 'm) llstore_scheme \<Rightarrow>
   'k list res" where
  "LL_searchTillStream fuel compare list startKey endKey yieldIndividualDuplicates s =
     res_bind (case startKey of
                 None \<Rightarrow> Ret (sl_min (lists s ! list))
               | Some sk \<Rightarrow> LL_search fuel compare list sk GreaterThanOrEqualsTo s)
       (\<lambda>currentNode.
          res_bind (case endKey of
                      None \<Rightarrow> Ret (sl_max (lists s ! list))
                    | Some ek \<Rightarrow> LL_search fuel compare list ek LesserThanOrEqualsTo s)
            (\<lambda>endNode.
               case endNode of
                 None \<Rightarrow> Ret []
               | Some e \<Rightarrow>
                   stream_loop fuel compare yieldIndividualDuplicates (lnodes s)
                     (ln_key (lnodes s ! e)) currentNode []))"

section \<open>The B+ tree: cells, nodes and the tree\<close>

text \<open>
  Keys are integers, compared through a caller-supplied comparator on cells; a value is
  any payload.  There is one tree per store, so the field \<open>parent_tree\<close> of a node, which
  no function reads, is left out.
\<close>

record 'v BPlusCell =
  bc_key :: int
  bc_value :: "'v option"
  bc_right_child_node :: "nat option"
  bc_parentNodeForRightChildNode :: "nat option"

record BPlusNode =
  bn_parent_cell :: "nat option"
  bn_rightSibling :: "nat option"
  bn_leftSibling :: "nat option"
  bn_parent_node :: "nat option"
  bn_cellsList :: nat
  bn_left_most_child :: "nat option"
  bn_isLeaf :: bool

record BPlusTree =
  bt_left_most_node :: "nat option"
  bt_right_most_node :: "nat option"
  bt_root_node :: "nat option"
  bt_size :: int
  bt_half_capacity :: int
  bt_max_node_size :: int

record 'v store = "nat llstore" +
  cells :: "'v BPlusCell list"
  bnodes :: "BPlusNode list"
  tree :: BPlusTree

type_synonym 'v comparator = "'v BPlusCell \<Rightarrow> 'v BPlusCell \<Rightarrow> int"

text \<open>The remainder operator \<open>%\<close> of the language truncates: its sign is the dividend's.\<close>

definition js_rem :: "int \<Rightarrow> int \<Rightarrow> int" where
  "js_rem a b = sgn a * (\<bar>a\<bar> mod \<bar>b\<bar>)"

definition new_BPlusTree :: "int \<Rightarrow> BPlusTree res" where
  "new_BPlusTree max_node_size =
     (if js_rem max_node_size 2 = 1 then Throw (Thrown ''node_size for tree must be an even number'')
      else Ret \<lparr>bt_left_most_node = None, bt_right_most_node = None, bt_root_node = None,
                bt_size = 0, bt_half_capacity = max_node_size div 2,
                bt_max_node_size = max_node_size\<rparr>)"

definition new_store :: "int \<Rightarrow> 'v store res" where
  "new_store max_node_size =
     res_bind (new_BPlusTree max_node_size)
       (\<lambda>t. Ret \<lparr>lnodes = [], lists = [], cells = [], bnodes = [], tree = t\<rparr>)"

definition upd_cell :: "nat \<Rightarrow> ('v BPlusCell \<Rightarrow> 'v BPlusCell) \<Rightarrow> 'v store \<Rightarrow> 'v store" where
  "upd_cell r f s = s\<lparr>cells := (cells s)[r := f (cells s ! r)]\<rparr>"

definition upd_bnode :: "nat \<Rightarrow> (BPlusNode \<Rightarrow> BPlusNode) \<Rightarrow> 'v store \<Rightarrow> 'v store" where
  "upd_bnode r f s = s\<lparr>bnodes := (bnodes s)[r := f (bnodes s ! r)]\<rparr>"

definition upd_bnode_opt :: "nat option \<Rightarrow> (BPlusNode \<Rightarrow> BPlusNode) \<Rightarrow> 'v store \<Rightarrow> 'v store" where
  "upd_bnode_opt r f s = (case r of None \<Rightarrow> s | Some n \<Rightarrow> upd_bnode n f s)"

definition upd_tree :: "(BPlusTree \<Rightarrow> BPlusTree) \<Rightarrow> 'v store \<Rightarrow> 'v store" where
  "upd_tree f s = s\<lparr>tree := f (tree s)\<rparr>"

text \<open>The comparator on cells, read through the references that the lists hold.\<close>

definition on_refs :: "'v comparator \<Rightarrow> 'v store \<Rightarrow> nat \<Rightarrow> nat \<Rightarrow> int" where
  "on_refs compare s a b = compare (cells s ! a) (cells s ! b)"

definition bn_size :: "'v store \<Rightarrow> nat \<Rightarrow> int" where
  "bn_size s n = sl_count (lists s ! bn_cellsList (bnodes s ! n))"

subsection \<open>Node and cell creation utilities\<close>

text \<open>
  A new node gets a new, empty cell list.  (The class initialiser of \<open>BPlusNode\<close> makes
  one too, which \<open>createBPlusNode\<close> replaces at once; only the list that stays is
  allocated here.)
\<close>

definition createBPlusNode :: "bool \<Rightarrow> nat option \<Rightarrow> nat option \<Rightarrow> 'v store \<Rightarrow> nat \<times> 'v store" where
  "createBPlusNode isLeaf parent_node left_most_child s0 =
     (let (l, s1) = alloc_list s0;
          node = length (bnodes s1);
          s2 = s1\<lparr>bnodes := bnodes s1 @
                 [\<lparr>bn_parent_cell = None, bn_rightSibling = None, bn_leftSibling = None,
                   bn_parent_node = parent_node, bn_cellsList = l,
                   bn_left_most_child = left_most_child, bn_isLeaf = isLeaf\<rparr>]\<rparr>;
          s3 = upd_bnode_opt left_most_child (\<lambda>n. n\<lparr>bn_parent_node := Some node\<rparr>) s2;
          s4 = upd_bnode_opt left_most_child (\<lambda>n. n\<lparr>bn_parent_cell := None\<rparr>) s3
      in (node, s4))"

definition createBPlusCell :: "int \<Rightarrow> nat option \<Rightarrow> nat option \<Rightarrow> 'v store \<Rightarrow> nat \<times> 'v store" where
  "createBPlusCell key right_child_node parentNodeForRightChildNode s0 =
     (let cell = length (cells s0);
          s1 = s0\<lparr>cells := cells s0 @
                 [\<lparr>bc_key = key, bc_value = None, bc_right_child_node = right_child_node,
                   bc_parentNodeForRightChildNode = parentNodeForRightChildNode\<rparr>]\<rparr>
      in case right_child_node of
           None \<Rightarrow> (cell, s1)
         | Some r \<Rightarrow>
             (let s2 = upd_bnode r (\<lambda>n. n\<lparr>bn_parent_cell := Some cell\<rparr>) s1;
                  s3 = (if bn_parent_node (bnodes s2 ! r) \<noteq> None
                        then upd_bnode r (\<lambda>n. n\<lparr>bn_parent_node := parentNodeForRightChildNode\<rparr>) s2
                        else s2)
              in (cell, s3)))"

text \<open>
  The loop shared by \<open>setAsCellsList\<close> and \<open>reinforceParentShipInChildNodes\<close>: every
  right child of a cell of the list gets \<open>node\<close> as its parent.
\<close>

fun parent_loop :: "nat \<Rightarrow> nat \<Rightarrow> nat option \<Rightarrow> 'v store \<Rightarrow> 'v store res" where
  "parent_loop 0 node currentLinkedNode s = Timeout"
| "parent_loop (Suc fuel) node currentLinkedNode s =
     (case currentLinkedNode of
        None \<Rightarrow> Ret s
      | Some c \<Rightarrow>
          (let s1 = upd_bnode_opt (bc_right_child_node (cells s ! ln_key (lnodes s ! c)))
                      (\<lambda>n. n\<lparr>bn_parent_node := Some node\<rparr>) s
           in parent_loop fuel node (ln_rightSibling (lnodes s1 ! c)) s1))"

definition setAsCellsList :: "nat \<Rightarrow> nat \<Rightarrow> nat \<Rightarrow> 'v store \<Rightarrow> 'v store res" where
  "setAsCellsList fuel node newCellsList s0 =
     res_bind (if \<not> bn_isLeaf (bnodes s0 ! node)
               then parent_loop fuel node (sl_min (lists s0 ! newCellsList)) s0
               else Ret s0)
       (\<lambda>s1. Ret (upd_bnode node (\<lambda>n. n\<lparr>bn_cellsList := newCellsList\<rparr>) s1))"

definition reinforceParentShipInChildNodes :: "nat \<Rightarrow> nat \<Rightarrow> 'v store \<Rightarrow> 'v store res" where
  "reinforceParentShipInChildNodes fuel node s0 =
     (if \<not> bn_isLeaf (bnodes s0 ! node)
      then parent_loop fuel node (sl_min (lists s0 ! bn_cellsList (bnodes s0 ! node))) s0
      else Ret s0)"

definition setAsLeftMostChildNode :: "nat \<Rightarrow> nat option \<Rightarrow> 'v store \<Rightarrow> 'v store res" where
  "setAsLeftMostChildNode node nodeToSetAsLeftMostChild s0 =
     (let s1 = upd_bnode node (\<lambda>n. n\<lparr>bn_left_most_child := nodeToSetAsLeftMostChild\<rparr>) s0
      in deref nodeToSetAsLeftMostChild
           (\<lambda>c. Ret (upd_bnode c (\<lambda>n. n\<lparr>bn_parent_cell := None\<rparr>)
                       (upd_bnode c (\<lambda>n. n\<lparr>bn_parent_node := Some node\<rparr>) s1))))"

section \<open>Balancing (namespace BB)\<close>

datatype BalanceCase =
  DO_NOTHING | REMOVE_ROOT | SPLIT | DISTRIBUTE_RIGHT_INTO_NODE | DISTRIBUTE_LEFT_INTO_NODE
  | MERGE_RIGHT_INTO_NODE | MERGE_NODE_INTO_LEFT

datatype SOURCE_IS = LEFT_SIBLING | RIGHT_SIBLING

definition determineBalancingCase :: "nat \<Rightarrow> 'v store \<Rightarrow> BalanceCase res" where
  "determineBalancingCase effectedNode s =
     (let node_size = bn_size s effectedNode;
          half_capacity = bt_half_capacity (tree s)
      in if half_capacity \<le> node_size \<and> node_size \<le> bt_max_node_size (tree s) then Ret DO_NOTHING
         else if node_size > bt_max_node_size (tree s) then Ret SPLIT
         else
           (let left_sibling_size =
                  (case bn_leftSibling (bnodes s ! effectedNode) of None \<Rightarrow> 0 | Some l \<Rightarrow> bn_size s l);
                right_sibling_size =
                  (case bn_rightSibling (bnodes s ! effectedNode) of None \<Rightarrow> 0 | Some r \<Rightarrow> bn_size s r)
            in if left_sibling_size = 0 \<and> right_sibling_size = 0 then
                 (if bn_size s effectedNode = 0 then Ret REMOVE_ROOT else Ret DO_NOTHING)
               else if right_sibling_size > half_capacity then Ret DISTRIBUTE_RIGHT_INTO_NODE
               else if left_sibling_size > half_capacity then Ret DISTRIBUTE_LEFT_INTO_NODE
               else if right_sibling_size > 0 then Ret MERGE_RIGHT_INTO_NODE
               else if left_sibling_size > 0 then Ret MERGE_NODE_INTO_LEFT
               else Throw (Thrown ''NO BALANCE CASE found for effectedNode'')))"

text \<open>
  The upward walk of \<open>find_effective_parent_cell\<close>: the first \<open>parent_cell\<close> found on
  the chain of parents, or nothing when the chain ends.
\<close>

fun parent_cell_loop :: "nat \<Rightarrow> BPlusNode list \<Rightarrow> nat option \<Rightarrow> nat option res" where
  "parent_cell_loop 0 ns currentNode = Timeout"
| "parent_cell_loop (Suc fuel) ns currentNode =
     (case currentNode of
        None \<Rightarrow> Ret None
      | Some c \<Rightarrow>
          (case bn_parent_cell (ns ! c) of
             Some pc \<Rightarrow> Ret (Some pc)
           | None \<Rightarrow> parent_cell_loop fuel ns (bn_parent_node (ns ! c))))"

definition find_effective_parent_cell :: "nat \<Rightarrow> nat \<Rightarrow> 'v store \<Rightarrow> nat res" where
  "find_effective_parent_cell fuel effectiveNode s =
     (case bn_parent_cell (bnodes s ! effectiveNode) of
        Some pc \<Rightarrow> Ret pc
      | None \<Rightarrow>
          res_bind (parent_cell_loop fuel (bnodes s) (Some effectiveNode))
            (\<lambda>found.
               case found of
                 Some pc \<Rightarrow> Ret pc
               | None \<Rightarrow>
                   (case bn_parent_node (bnodes s ! effectiveNode) of
                      None \<Rightarrow> Throw (Thrown ''Not allowed condition'')
                    | Some p \<Rightarrow>
                        (case sl_min (lists s ! bn_cellsList (bnodes s ! p)) of
                           None \<Rightarrow> Throw (Thrown ''Not allowed condition'')
                         | Some m \<Rightarrow> Ret (ln_key (lnodes s ! m))))))"

definition BB_split :: "nat \<Rightarrow> 'v comparator \<Rightarrow> nat \<Rightarrow> 'v store \<Rightarrow> (nat option \<times> 'v store) res" where
  "BB_split fuel customCompare effectedNode s0 =
     (let splitAfterIndex = bt_half_capacity (tree s0) in
      res_bind (LL_splitAt (bn_cellsList (bnodes s0 ! effectedNode)) splitAfterIndex s0)
        (\<lambda>((newLeftList, newRightList), s1).
           let (splitRightNode, s2) =
                 createBPlusNode (bn_isLeaf (bnodes s1 ! effectedNode))
                   (bn_parent_node (bnodes s1 ! effectedNode))
                   (case sl_max (lists s1 ! newLeftList) of
                      None \<Rightarrow> None
                    | Some m \<Rightarrow> bc_right_child_node (cells s1 ! ln_key (lnodes s1 ! m))) s1
           in res_bind (setAsCellsList fuel splitRightNode newRightList s2)
                (\<lambda>s3.
                   let s4 = upd_bnode splitRightNode
                              (\<lambda>n. n\<lparr>bn_rightSibling := bn_rightSibling (bnodes s3 ! effectedNode)\<rparr>) s3;
                       s5 = upd_bnode_opt (bn_rightSibling (bnodes s4 ! effectedNode))
                              (\<lambda>n. n\<lparr>bn_leftSibling := Some splitRightNode\<rparr>) s4;
                       s6 = upd_bnode splitRightNode (\<lambda>n. n\<lparr>bn_leftSibling := Some effectedNode\<rparr>) s5;
                       s7 = upd_bnode effectedNode (\<lambda>n. n\<lparr>bn_rightSibling := Some splitRightNode\<rparr>) s6;
                       s8 = (if bn_parent_node (bnodes s7 ! effectedNode) = None then
                               (let (newRootNode, a) = createBPlusNode False None (Some effectedNode) s7
                                in upd_tree (\<lambda>t. t\<lparr>bt_root_node := Some newRootNode\<rparr>) a)
                             else s7);
                       s9 = upd_bnode splitRightNode
                              (\<lambda>n. n\<lparr>bn_parent_node := bn_parent_node (bnodes s8 ! effectedNode)\<rparr>) s8
                   in deref (sl_max (lists s9 ! newLeftList))
                        (\<lambda>leftMax.
                           let (parentCellForNewRightNode, s10) =
                                 createBPlusCell (bc_key (cells s9 ! ln_key (lnodes s9 ! leftMax)))
                                   (Some splitRightNode) (bn_parent_node (bnodes s9 ! effectedNode)) s9
                           in deref (bn_parent_node (bnodes s10 ! effectedNode))
                                (\<lambda>parent.
                                   res_bind (LL_insert fuel (on_refs customCompare s10)
                                               (bn_cellsList (bnodes s10 ! parent)) parentCellForNewRightNode s10)
                                     (\<lambda>(inserted, s11).
                                        res_bind
                                          (if bn_isLeaf (bnodes s11 ! effectedNode) then
                                             Ret (if Some effectedNode = bt_right_most_node (tree s11)
                                                  then upd_tree (\<lambda>t. t\<lparr>bt_right_most_node := Some splitRightNode\<rparr>) s11
                                                  else s11)
                                           else
                                             deref (sl_max (lists s11 ! newLeftList))
                                               (\<lambda>leftMax2.
                                                  let (probe, a) =
                                                        createBPlusCell
                                                          (bc_key (cells s11 ! ln_key (lnodes s11 ! leftMax2)))
                                                          None None s11
                                                  in res_bind (LL_deleteNode fuel (on_refs customCompare a)
                                                                 newLeftList probe a)
                                                       (\<lambda>(deleted, b). Ret b)))
                                          (\<lambda>s12. Ret (bn_parent_node (bnodes s12 ! effectedNode), s12))))))))"

definition BB_merge ::
  "nat \<Rightarrow> 'v comparator \<Rightarrow> nat \<Rightarrow> nat \<Rightarrow> 'v store \<Rightarrow> (nat option \<times> 'v store) res" where
  "BB_merge fuel customCompare source target s0 =
     res_bind (find_effective_parent_cell fuel source s0)
       (\<lambda>effective_parent_cell.
          res_bind
            (if \<not> bn_isLeaf (bnodes s0 ! source) then
               (let right_child_node = bn_left_most_child (bnodes s0 ! source);
                    (first_cell_for_target, a) =
                      createBPlusCell (bc_key (cells s0 ! effective_parent_cell)) right_child_node (Some target) s0
                in res_bind (LL_insert fuel (on_refs customCompare a) (bn_cellsList (bnodes a ! target))
                               first_cell_for_target a)
                     (\<lambda>(inserted, b). Ret b))
             else Ret s0)
            (\<lambda>s1.
               let (merged, s2) =
                     LL_mergeSplittedRightIntoLeft (bn_cellsList (bnodes s1 ! target))
                       (bn_cellsList (bnodes s1 ! source)) s1
               in res_bind (reinforceParentShipInChildNodes fuel target s2)
                    (\<lambda>s3.
                       let s4 = upd_bnode target
                                  (\<lambda>n. n\<lparr>bn_rightSibling := bn_rightSibling (bnodes s3 ! source)\<rparr>) s3;
                           s5 = upd_bnode_opt (bn_rightSibling (bnodes s4 ! source))
                                  (\<lambda>n. n\<lparr>bn_leftSibling := Some target\<rparr>) s4
                       in res_bind
                            (if bn_parent_cell (bnodes s5 ! source) = None then
                               deref (bn_parent_node (bnodes s5 ! source))
                                 (\<lambda>parent.
                                    deref (sl_min (lists s5 ! bn_cellsList (bnodes s5 ! parent)))
                                      (\<lambda>parentMin.
                                         let replacement_key = bc_key (cells s5 ! ln_key (lnodes s5 ! parentMin));
                                             (probe, a) = createBPlusCell replacement_key None None s5
                                         in res_bind (LL_deleteNode fuel (on_refs customCompare a)
                                                        (bn_cellsList (bnodes a ! parent)) probe a)
                                              (\<lambda>(deletedN, b).
                                                 res_bind
                                                   (case deletedN of
                                                      None \<Rightarrow> Ret b
                                                    | Some d \<Rightarrow>
                                                        (case bc_right_child_node (cells b ! ln_key (lnodes b ! d)) of
                                                           None \<Rightarrow> Ret b
                                                         | Some rc \<Rightarrow>
                                                             deref (bn_parent_node (bnodes b ! source))
                                                               (\<lambda>p. setAsLeftMostChildNode p (Some rc) b)))
                                                   (\<lambda>c. Ret (upd_cell effective_parent_cell
                                                               (\<lambda>x. x\<lparr>bc_key := replacement_key\<rparr>) c)))))
                             else
                               deref (bn_parent_node (bnodes s5 ! source))
                                 (\<lambda>parent.
                                    deref (bn_parent_cell (bnodes s5 ! source))
                                      (\<lambda>pc.
                                         let (probe, a) = createBPlusCell (bc_key (cells s5 ! pc)) None None s5
                                         in res_bind (LL_deleteNode fuel (on_refs customCompare a)
                                                        (bn_cellsList (bnodes a ! parent)) probe a)
                                              (\<lambda>(deletedN, b). Ret b))))
                            (\<lambda>s6.
                               let s7 = (if Some source = bt_right_most_node (tree s6)
                                         then upd_tree (\<lambda>t. t\<lparr>bt_right_most_node := Some target\<rparr>) s6
                                         else s6)
                               in Ret (bn_parent_node (bnodes s7 ! source), s7)))))"

definition BB_distribute ::
  "nat \<Rightarrow> 'v comparator \<Rightarrow> nat \<Rightarrow> nat \<Rightarrow> SOURCE_IS \<Rightarrow> 'v store \<Rightarrow> 'v store res" where
  "BB_distribute fuel customCompare source target source_is s0 =
     (let effectiveNode = (if source_is = LEFT_SIBLING then target else source) in
      res_bind (find_effective_parent_cell fuel effectiveNode s0)
        (\<lambda>effective_parent_cell.
           res_bind
             (if \<not> bn_isLeaf (bnodes s0 ! source) then
                (let right_child_node =
                       (if source_is = LEFT_SIBLING then bn_left_most_child (bnodes s0 ! target)
                        else bn_left_most_child (bnodes s0 ! source));
                     (first_cell_for_target, a) =
                       createBPlusCell (bc_key (cells s0 ! effective_parent_cell)) right_child_node (Some target) s0
                 in res_bind (LL_insert fuel (on_refs customCompare a) (bn_cellsList (bnodes a ! target))
                                first_cell_for_target a)
                      (\<lambda>(inserted, b). Ret b))
              else Ret s0)
             (\<lambda>s1.
                let sourceList = bn_cellsList (bnodes s1 ! source);
                    half_capacity = bt_half_capacity (tree s1)
                in res_bind
                     (if \<not> bn_isLeaf (bnodes s1 ! source) then
                        (if source_is = RIGHT_SIBLING
                         then LL_splitAt sourceList (sl_count (lists s1 ! sourceList) - half_capacity - 1) s1
                         else LL_splitAt sourceList (sl_count (lists s1 ! sourceList) - half_capacity + 1) s1)
                      else
                        (if source_is = RIGHT_SIBLING
                         then LL_splitAt sourceList (sl_count (lists s1 ! sourceList) - half_capacity - 1) s1
                         else LL_splitAt sourceList (half_capacity - 1) s1))
                     (\<lambda>((splitted0, splitted1), s2).
                        res_bind
                          (case source_is of
                             LEFT_SIBLING \<Rightarrow>
                               deref (sl_max (lists s2 ! bn_cellsList (bnodes s2 ! source)))
                                 (\<lambda>m.
                                    let max_cell_in_source_after_split = ln_key (lnodes s2 ! m);
                                        effective_LMC = bc_right_child_node (cells s2 ! max_cell_in_source_after_split);
                                        replacement_key = bc_key (cells s2 ! max_cell_in_source_after_split)
                                    in res_bind
                                         (if \<not> bn_isLeaf (bnodes s2 ! source) then
                                            (let (probe, a) =
                                                   createBPlusCell (bc_key (cells s2 ! max_cell_in_source_after_split))
                                                     None None s2
                                             in res_bind (LL_deleteNode fuel (on_refs customCompare a)
                                                            (bn_cellsList (bnodes a ! source)) probe a)
                                                  (\<lambda>(deleted, b). Ret b))
                                          else Ret s2)
                                         (\<lambda>s3. Ret (effective_LMC, replacement_key, s3)))
                           | RIGHT_SIBLING \<Rightarrow>
                               res_bind (setAsCellsList fuel source splitted1 s2)
                                 (\<lambda>a0.
                                    deref (sl_max (lists a0 ! splitted0))
                                      (\<lambda>m.
                                         let max_cell_in_left_portion_after_split = ln_key (lnodes a0 ! m);
                                             effective_LMC =
                                               bc_right_child_node (cells a0 ! max_cell_in_left_portion_after_split);
                                             replacement_key = bc_key (cells a0 ! max_cell_in_left_portion_after_split)
                                         in res_bind
                                              (if \<not> bn_isLeaf (bnodes a0 ! source) then
                                                 (let (probe, a) =
                                                        createBPlusCell
                                                          (bc_key (cells a0 ! max_cell_in_left_portion_after_split))
                                                          None None a0
                                                  in res_bind (LL_deleteNode fuel (on_refs customCompare a)
                                                                 splitted0 probe a)
                                                       (\<lambda>(deleted, b). Ret b))
                                               else Ret a0)
                                              (\<lambda>s3. Ret (effective_LMC, replacement_key, s3)))))
                          (\<lambda>(effective_LMC, replacement_key, s3).
                             res_bind
                               (case source_is of
                                  LEFT_SIBLING \<Rightarrow>
                                    (if sl_count (lists s3 ! splitted1) > 0 then
                                       (let (merged, a) =
                                              LL_mergeSplittedLeftIntoRight splitted1
                                                (bn_cellsList (bnodes s3 ! target)) s3
                                        in reinforceParentShipInChildNodes fuel target a)
                                     else Ret s3)
                                | RIGHT_SIBLING \<Rightarrow>
                                    (if sl_count (lists s3 ! splitted0) > 0 then
                                       (let (merged, a) =
                                              LL_mergeSplittedRightIntoLeft (bn_cellsList (bnodes s3 ! target))
                                                splitted0 s3
                                        in reinforceParentShipInChildNodes fuel target a)
                                     else Ret s3))
                               (\<lambda>s4.
                                  res_bind
                                    (if \<not> bn_isLeaf (bnodes s4 ! source) then
                                       (case source_is of
                                          LEFT_SIBLING \<Rightarrow> setAsLeftMostChildNode target effective_LMC s4
                                        | RIGHT_SIBLING \<Rightarrow> setAsLeftMostChildNode source effective_LMC s4)
                                     else Ret s4)
                                    (\<lambda>s5.
                                       if source_is = RIGHT_SIBLING \<and> bn_isLeaf (bnodes s5 ! source) then
                                         deref (sl_max (lists s5 ! bn_cellsList (bnodes s5 ! target)))
                                           (\<lambda>m. Ret (upd_cell effective_parent_cell
                                                       (\<lambda>x. x\<lparr>bc_key := bc_key (cells s5 ! ln_key (lnodes s5 ! m))\<rparr>)
                                                       s5))
                                       else
                                         Ret (upd_cell effective_parent_cell
                                                (\<lambda>x. x\<lparr>bc_key := replacement_key\<rparr>) s5))))))))"

text \<open>
  \<open>BB.balance\<close> recurses up the chain of parents.  Its body runs inside
  \<open>try \<dots> catch\<close>, which rethrows every error wrapped; an absent node makes the first
  read of the body fail.
\<close>

definition rethrow :: "'a res \<Rightarrow> 'a res" where
  "rethrow m = (case m of Throw e \<Rightarrow> Throw (Balancing e) | other \<Rightarrow> other)"

fun BB_balance :: "nat \<Rightarrow> 'v comparator \<Rightarrow> nat option \<Rightarrow> 'v store \<Rightarrow> 'v store res" where
  "BB_balance 0 customCompare effectedNode s = Timeout"
| "BB_balance (Suc fuel) customCompare effectedNode s =
     rethrow
       (deref effectedNode
          (\<lambda>node.
             res_bind (determineBalancingCase node s)
               (\<lambda>balanceCase.
                  case balanceCase of
                    DO_NOTHING \<Rightarrow> Ret s
                  | REMOVE_ROOT \<Rightarrow>
                      deref (bt_root_node (tree s))
                        (\<lambda>root.
                           let s1 = upd_tree (\<lambda>t. t\<lparr>bt_root_node := bn_left_most_child (bnodes s ! root)\<rparr>) s
                           in Ret (upd_bnode_opt (bt_root_node (tree s1)) (\<lambda>n. n\<lparr>bn_parent_node := None\<rparr>) s1))
                  | SPLIT \<Rightarrow>
                      res_bind (BB_split fuel customCompare node s)
                        (\<lambda>(nextnode, s1). BB_balance fuel customCompare nextnode s1)
                  | DISTRIBUTE_RIGHT_INTO_NODE \<Rightarrow>
                      deref (bn_rightSibling (bnodes s ! node))
                        (\<lambda>r. BB_distribute fuel customCompare r node RIGHT_SIBLING s)
                  | DISTRIBUTE_LEFT_INTO_NODE \<Rightarrow>
                      deref (bn_leftSibling (bnodes s ! node))
                        (\<lambda>l. BB_distribute fuel customCompare l node LEFT_SIBLING s)
                  | MERGE_RIGHT_INTO_NODE \<Rightarrow>
                      deref (bn_rightSibling (bnodes s ! node))
                        (\<lambda>r. res_bind (BB_merge fuel customCompare r node s)
                                (\<lambda>(nextnode, s1).
                                   if nextnode \<noteq> None then BB_balance fuel customCompare nextnode s1 else Ret s1))
                  | MERGE_NODE_INTO_LEFT \<Rightarrow>
                      deref (bn_leftSibling (bnodes s ! node))
                        (\<lambda>l. res_bind (BB_merge fuel customCompare node l s)
                                (\<lambda>(nextnode, s1).
                                   if nextnode \<noteq> None then BB_balance fuel customCompare nextnode s1 else Ret s1)))))"

section \<open>Searching, inserting and deleting (namespace BB)\<close>

text \<open>
  The descent of \<open>searchForLeafNode\<close>: one turn of its loop, and the loop.
\<close>

definition descend_step :: "nat \<Rightarrow> 'v comparator \<Rightarrow> nat \<Rightarrow> nat \<Rightarrow> 'v store \<Rightarrow> nat option res" where
  "descend_step fuel effectiveComparator searchKey bpNode s =
     res_bind (LL_search fuel (on_refs effectiveComparator s) (bn_cellsList (bnodes s ! bpNode))
                 searchKey LesserThanOrEqualsTo s)
       (\<lambda>foundCell.
          case foundCell of
            None \<Rightarrow> Ret (bn_left_most_child (bnodes s ! bpNode))
          | Some f \<Rightarrow>
              (let c = effectiveComparator (cells s ! searchKey) (cells s ! ln_key (lnodes s ! f)) in
               if c = 0 then
                 (case ln_leftSibling (lnodes s ! f) of
                    Some l \<Rightarrow> Ret (bc_right_child_node (cells s ! ln_key (lnodes s ! l)))
                  | None \<Rightarrow> Ret (bn_left_most_child (bnodes s ! bpNode)))
               else Ret (bc_right_child_node (cells s ! ln_key (lnodes s ! f)))))"

fun descend_loop :: "nat \<Rightarrow> nat \<Rightarrow> 'v comparator \<Rightarrow> nat \<Rightarrow> nat option \<Rightarrow> 'v store \<Rightarrow> nat option res" where
  "descend_loop 0 budget effectiveComparator searchKey bpNode s = Timeout"
| "descend_loop (Suc fuel) budget effectiveComparator searchKey bpNode s =
     (case bpNode of
        None \<Rightarrow> Ret None
      | Some n \<Rightarrow>
          if bn_isLeaf (bnodes s ! n) then Ret (Some n)
          else res_bind (descend_step budget effectiveComparator searchKey n s)
                 (\<lambda>next. descend_loop fuel budget effectiveComparator searchKey next s))"

definition BB_searchForLeafNode ::
  "nat \<Rightarrow> 'v comparator \<Rightarrow> int \<Rightarrow> 'v comparator option \<Rightarrow> 'v store \<Rightarrow> (nat option \<times> 'v store) res" where
  "BB_searchForLeafNode fuel compare key queryCompare s0 =
     (let effectiveComparator = (case queryCompare of Some q \<Rightarrow> q | None \<Rightarrow> compare) in
      case bt_root_node (tree s0) of
        None \<Rightarrow> Ret (None, s0)
      | Some root \<Rightarrow>
          (let (searchKey, s1) = createBPlusCell key None None s0
           in res_bind (descend_loop fuel fuel effectiveComparator searchKey (Some root) s1)
                (\<lambda>bpNode. Ret (bpNode, s1))))"

definition BB_searchForValue ::
  "nat \<Rightarrow> 'v comparator \<Rightarrow> int \<Rightarrow> SearchType \<Rightarrow> 'v store \<Rightarrow> ('v option \<times> 'v store) res" where
  "BB_searchForValue fuel compare searchKey searchType s0 =
     res_bind (BB_searchForLeafNode fuel compare searchKey None s0)
       (\<lambda>(leafNode, s1).
          case leafNode of
            None \<Rightarrow> Ret (None, s1)
          | Some leaf \<Rightarrow>
              (let (probe, s2) = createBPlusCell searchKey None None s1
               in res_bind (LL_search fuel (on_refs compare s2) (bn_cellsList (bnodes s2 ! leaf)) probe searchType s2)
                    (\<lambda>foundNode.
                       case foundNode of
                         None \<Rightarrow> Ret (None, s2)
                       | Some f \<Rightarrow> Ret (bc_value (cells s2 ! ln_key (lnodes s2 ! f)), s2))))"

definition BB_searchForKey ::
  "nat \<Rightarrow> 'v comparator \<Rightarrow> int \<Rightarrow> SearchType \<Rightarrow> 'v store \<Rightarrow> (int option \<times> 'v store) res" where
  "BB_searchForKey fuel compare searchKey searchType s0 =
     res_bind (BB_searchForLeafNode fuel compare searchKey None s0)
       (\<lambda>(leafNode, s1).
          case leafNode of
            None \<Rightarrow> Ret (None, s1)
          | Some leaf \<Rightarrow>
              (let (probe, s2) = createBPlusCell searchKey None None s1
               in res_bind (LL_search fuel (on_refs compare s2) (bn_cellsList (bnodes s2 ! leaf)) probe searchType s2)
                    (\<lambda>foundNode.
                       case foundNode of
                         None \<Rightarrow> Ret (None, s2)
                       | Some f \<Rightarrow> Ret (Some (bc_key (cells s2 ! ln_key (lnodes s2 ! f))), s2))))"

definition BB_insert ::
  "nat \<Rightarrow> 'v comparator \<Rightarrow> int \<Rightarrow> 'v option \<Rightarrow> 'v store \<Rightarrow> (int option \<times> 'v store) res" where
  "BB_insert fuel compare key val s0 =
     (case bt_root_node (tree s0) of
        None \<Rightarrow>
          (let (root, s1) = createBPlusNode True None None s0;
               s2 = upd_tree (\<lambda>t. t\<lparr>bt_root_node := Some root\<rparr>) s1;
               s3 = upd_tree (\<lambda>t. t\<lparr>bt_left_most_node := bt_root_node t\<rparr>) s2;
               s4 = upd_tree (\<lambda>t. t\<lparr>bt_right_most_node := bt_root_node t\<rparr>) s3;
               s5 = upd_tree (\<lambda>t. t\<lparr>bt_size := bt_size t + 1\<rparr>) s4;
               (cell, s6) = createBPlusCell key None (Some root) s5
           in res_bind (LL_insert fuel (on_refs compare s6) (bn_cellsList (bnodes s6 ! root)) cell s6)
                (\<lambda>(j, s7).
                   Ret (Some key, upd_cell (ln_key (lnodes s7 ! j)) (\<lambda>c. c\<lparr>bc_value := val\<rparr>) s7)))
      | Some r \<Rightarrow>
          res_bind (BB_searchForLeafNode fuel compare key None s0)
            (\<lambda>(leafNode, s1).
               case leafNode of
                 None \<Rightarrow> Ret (None, s1)
               | Some leaf \<Rightarrow>
                   (let (cell, s2) = createBPlusCell key None (Some leaf) s1
                    in res_bind (LL_insert fuel (on_refs compare s2) (bn_cellsList (bnodes s2 ! leaf)) cell s2)
                         (\<lambda>(insertedNode, s3).
                            let s4 = upd_cell (ln_key (lnodes s3 ! insertedNode)) (\<lambda>c. c\<lparr>bc_value := val\<rparr>) s3
                            in res_bind (BB_balance fuel compare (Some leaf) s4)
                                 (\<lambda>s5. Ret (Some key, upd_tree (\<lambda>t. t\<lparr>bt_size := bt_size t + 1\<rparr>) s5))))))"

text \<open>
  \<open>deleteKey\<close> and \<open>deleteKeyReturnValue\<close> differ only in what they read from the deleted
  node's cell: the key or the value.
\<close>

definition delete_with ::
  "('v BPlusCell \<Rightarrow> 'r option) \<Rightarrow> nat \<Rightarrow> 'v comparator \<Rightarrow> int \<Rightarrow> 'v store \<Rightarrow> ('r option \<times> 'v store) res" where
  "delete_with project fuel compare key s0 =
     (case bt_root_node (tree s0) of
        None \<Rightarrow> Ret (None, upd_tree (\<lambda>t. t\<lparr>bt_size := 0\<rparr>) s0)
      | Some r \<Rightarrow>
          res_bind (BB_searchForLeafNode fuel compare key None s0)
            (\<lambda>(leafNode, s1).
               deref leafNode
                 (\<lambda>leaf.
                    let (probe, s2) = createBPlusCell key None None s1
                    in res_bind (LL_deleteNode fuel (on_refs compare s2) (bn_cellsList (bnodes s2 ! leaf)) probe s2)
                         (\<lambda>(deletedNode, s3).
                            case deletedNode of
                              None \<Rightarrow> Ret (None, s3)
                            | Some d \<Rightarrow>
                                (let s4 = upd_tree
                                            (\<lambda>t. t\<lparr>bt_size := bt_size t - (1 + ln_duplicate_count (lnodes s3 ! d))\<rparr>) s3
                                 in res_bind (BB_balance fuel compare (Some leaf) s4)
                                      (\<lambda>s5. Ret (project (cells s5 ! ln_key (lnodes s5 ! d)), s5)))))))"

definition BB_deleteKey ::
  "nat \<Rightarrow> 'v comparator \<Rightarrow> int \<Rightarrow> 'v store \<Rightarrow> (int option \<times> 'v store) res" where
  "BB_deleteKey = delete_with (\<lambda>c. Some (bc_key c))"

definition BB_deleteKeyReturnValue ::
  "nat \<Rightarrow> 'v comparator \<Rightarrow> int \<Rightarrow> 'v store \<Rightarrow> ('v option \<times> 'v store) res" where
  "BB_deleteKeyReturnValue = delete_with bc_value"

definition BB_getSize :: "'v store \<Rightarrow> int" where
  "BB_getSize s = bt_size (tree s)"

fun middle_loop :: "nat \<Rightarrow> int \<Rightarrow> int \<Rightarrow> nat option \<Rightarrow> 'v store \<Rightarrow> int option res" where
  "middle_loop 0 hs c found_leaf_node s = Timeout"
| "middle_loop (Suc fuel) hs c found_leaf_node s =
     (case found_leaf_node of
        None \<Rightarrow> Ret None
      | Some leaf \<Rightarrow>
          if c < hs then
            (let t = c + sl_count (lists s ! bn_cellsList (bnodes s ! leaf)) in
             if t < hs then middle_loop fuel hs t (bn_rightSibling (bnodes s ! leaf)) s
             else deref (sl_min (lists s ! bn_cellsList (bnodes s ! leaf)))
                    (\<lambda>m. Ret (Some (bc_key (cells s ! ln_key (lnodes s ! m))))))
          else Ret None)"

definition BB_getMiddleKey :: "nat \<Rightarrow> 'v store \<Rightarrow> int option res" where
  "BB_getMiddleKey fuel s =
     (let found_leaf_node = bt_left_most_node (tree s);
          hs = BB_getSize s div 2
      in if found_leaf_node = None then Ret None
         else middle_loop fuel hs 0 found_leaf_node s)"

section \<open>Range search with pagination\<close>

text \<open>
  The three range functions (keys, values, key-value pairs) are the same text up to what
  they push, which is the parameter \<open>emit\<close>.  An optional key is tested with \<open>!key\<close>,
  which holds for an absent key and for the key \<open>0\<close>.
\<close>

definition resolve_leaf ::
  "nat \<Rightarrow> 'v comparator \<Rightarrow> int option \<Rightarrow> nat option \<Rightarrow> 'v store \<Rightarrow> (nat option \<times> 'v store) res" where
  "resolve_leaf fuel compare key unbounded s =
     (case key of
        None \<Rightarrow> Ret (unbounded, s)
      | Some k \<Rightarrow> if k = 0 then Ret (unbounded, s) else BB_searchForLeafNode fuel compare k None s)"

definition probe_cell :: "int option \<Rightarrow> 'v store \<Rightarrow> nat option \<times> 'v store" where
  "probe_cell key s =
     (case key of
        None \<Rightarrow> (None, s)
      | Some k \<Rightarrow> if k = 0 then (None, s) else (let (c, a) = createBPlusCell k None None s in (Some c, a)))"

text \<open>The loop over the matches of one leaf; the triple is \<open>(skip, count, result)\<close>.\<close>

fun paginate :: "int \<Rightarrow> int \<Rightarrow> 'r list \<Rightarrow> int \<times> int \<times> 'r list \<Rightarrow> int \<times> int \<times> 'r list" where
  "paginate offset limit [] acc = acc"
| "paginate offset limit (n1 # rest) (skip, count, result) =
     (if skip \<ge> offset then
        (if limit \<noteq> - 1 \<and> count = limit then (skip, count, result)
         else paginate offset limit rest (skip, count + 1, result @ [n1]))
      else paginate offset limit rest (skip + 1, count, result))"

definition collect_leaf ::
  "('v BPlusCell \<Rightarrow> 'r) \<Rightarrow> nat \<Rightarrow> 'v comparator \<Rightarrow> int \<Rightarrow> int \<Rightarrow> int option \<Rightarrow> int option \<Rightarrow> nat \<Rightarrow>
   int \<times> int \<times> 'r list \<Rightarrow> 'v store \<Rightarrow> ((int \<times> int \<times> 'r list) \<times> 'v store) res" where
  "collect_leaf emit fuel compare offset limit startKey endKey node acc s0 =
     (let (sk, s1) = probe_cell startKey s0;
          (ek, s2) = probe_cell endKey s1
      in res_bind (LL_searchTillStream fuel (on_refs compare s2) (bn_cellsList (bnodes s2 ! node)) sk ek False s2)
           (\<lambda>st1. Ret (paginate offset limit (map (\<lambda>n1. emit (cells s2 ! n1)) st1) acc, s2)))"

fun range_loop ::
  "nat \<Rightarrow> nat \<Rightarrow> ('v BPlusCell \<Rightarrow> 'r) \<Rightarrow> 'v comparator \<Rightarrow> int \<Rightarrow> int \<Rightarrow> int option \<Rightarrow> int option \<Rightarrow>
   nat option \<Rightarrow> nat option \<Rightarrow> int \<times> int \<times> 'r list \<Rightarrow> 'v store \<Rightarrow>
   ((nat option \<times> int \<times> int \<times> 'r list) \<times> 'v store) res" where
  "range_loop 0 budget emit compare offset limit startKey endKey endNode currentNode acc s = Timeout"
| "range_loop (Suc fuel) budget emit compare offset limit startKey endKey endNode currentNode acc s =
     (if currentNode = endNode then Ret ((currentNode, acc), s)
      else
        (case currentNode of
           None \<Rightarrow>
             (let (sk, s1) = probe_cell startKey s;
                  (ek, s2) = probe_cell endKey s1
              in range_loop fuel budget emit compare offset limit startKey endKey endNode None acc s2)
         | Some node \<Rightarrow>
             res_bind (collect_leaf emit budget compare offset limit startKey endKey node acc s)
               (\<lambda>(acc1, s2).
                  range_loop fuel budget emit compare offset limit startKey endKey endNode
                    (bn_rightSibling (bnodes s2 ! node)) acc1 s2)))"

definition range_with ::
  "('v BPlusCell \<Rightarrow> 'r) \<Rightarrow> nat \<Rightarrow> 'v comparator \<Rightarrow> int \<Rightarrow> int \<Rightarrow> int option \<Rightarrow> int option \<Rightarrow> 'v store \<Rightarrow>
   ('r list \<times> 'v store) res" where
  "range_with emit fuel compare offset limit startKey endKey s0 =
     res_bind (resolve_leaf fuel compare startKey (bt_left_most_node (tree s0)) s0)
       (\<lambda>(startNode, s1).
          res_bind (resolve_leaf fuel compare endKey (bt_right_most_node (tree s1)) s1)
            (\<lambda>(endNode, s2).
               res_bind
                 (if startNode \<noteq> endNode
                  then range_loop fuel fuel emit compare offset limit startKey endKey endNode startNode (0, 0, []) s2
                  else Ret ((startNode, (0, 0, [])), s2))
                 (\<lambda>((currentNode, acc), s3).
                    case currentNode of
                      None \<Rightarrow> Ret (snd (snd acc), s3)
                    | Some node \<Rightarrow>
                        if currentNode = endNode then
                          res_bind (collect_leaf emit fuel compare offset limit startKey endKey node acc s3)
                            (\<lambda>(acc1, s4). Ret (snd (snd acc1), s4))
                        else Ret (snd (snd acc), s3))))"

definition BB_searchForRangeWithPagination ::
  "nat \<Rightarrow> 'v comparator \<Rightarrow> int \<Rightarrow> int \<Rightarrow> int option \<Rightarrow> int option \<Rightarrow> 'v store \<Rightarrow> (int list \<times> 'v store) res" where
  "BB_searchForRangeWithPagination = range_with bc_key"

definition BB_searchForRangeWithPaginationV ::
  "nat \<Rightarrow> 'v comparator \<Rightarrow> int \<Rightarrow> int \<Rightarrow> int option \<Rightarrow> int option \<Rightarrow> 'v store \<Rightarrow>
   ('v option list \<times> 'v store) res" where
  "BB_searchForRangeWithPaginationV = range_with bc_value"

definition BB_searchForRangeWithPaginationKVP ::
  "nat \<Rightarrow> 'v comparator \<Rightarrow> int \<Rightarrow> int \<Rightarrow> int option \<Rightarrow> int option \<Rightarrow> 'v store \<Rightarrow>
   ((int \<times> 'v option) list \<times> 'v store) res" where
  "BB_searchForRangeWithPaginationKVP = range_with (\<lambda>c. (bc_key c, bc_value c))"

section \<open>Running a sequence of calls\<close>

text \<open>The integer comparator of the scenarios, on the keys of two cells.\<close>

definition int_compare :: "'v comparator" where
  "int_compare k1 k2 = bc_key k1 - bc_key k2"

fun insert_all :: "nat \<Rightarrow> 'v comparator \<Rightarrow> (int \<times> 'v option) list \<Rightarrow> 'v store \<Rightarrow> 'v store res" where
  "insert_all fuel compare [] s = Ret s"
| "insert_all fuel compare ((k, v) # kvs) s =
     res_bind (BB_insert fuel compare k v s) (\<lambda>(r, s1). insert_all fuel compare kvs s1)"

definition build :: "nat \<Rightarrow> int \<Rightarrow> (int \<times> 'v option) list \<Rightarrow> 'v store res" where
  "build fuel max_node_size kvs =
     res_bind (new_store max_node_size) (insert_all fuel int_compare kvs)"

section \<open>Observing a store\<close>

text \<open>
  The keys of a list, read by following \<open>rightSibling\<close> from a starting node, and the
  shape of the tree below a node: the keys of its cells and, for an interior node, the
  shapes of its left-most child and of the right child of every cell.
\<close>

fun chain_keys :: "nat \<Rightarrow> 'k LinkedNode list \<Rightarrow> nat option \<Rightarrow> 'k list res" where
  "chain_keys 0 ns p = Timeout"
| "chain_keys (Suc fuel) ns p =
     (case p of
        None \<Rightarrow> Ret []
      | Some a \<Rightarrow> res_bind (chain_keys fuel ns (ln_rightSibling (ns ! a))) (\<lambda>ks. Ret (ln_key (ns ! a) # ks)))"

fun all_res :: "('a \<Rightarrow> 'b res) \<Rightarrow> 'a list \<Rightarrow> 'b list res" where
  "all_res f [] = Ret []"
| "all_res f (x # xs) = res_bind (f x) (\<lambda>y. res_bind (all_res f xs) (\<lambda>ys. Ret (y # ys)))"

datatype shape = Leaf "int list" | Interior "int list" "shape list" | Missing

fun shape_of :: "nat \<Rightarrow> 'v store \<Rightarrow> nat option \<Rightarrow> shape res" where
  "shape_of 0 s n = Timeout"
| "shape_of (Suc fuel) s None = Ret Missing"
| "shape_of (Suc fuel) s (Some n) =
     res_bind (chain_keys (Suc fuel) (lnodes s) (sl_min (lists s ! bn_cellsList (bnodes s ! n))))
       (\<lambda>cs. if bn_isLeaf (bnodes s ! n) then Ret (Leaf (map (\<lambda>c. bc_key (cells s ! c)) cs))
              else res_bind (all_res (\<lambda>c. shape_of fuel s c)
                               (bn_left_most_child (bnodes s ! n) #
                                map (\<lambda>c. bc_right_child_node (cells s ! c)) cs))
                     (\<lambda>sub. Ret (Interior (map (\<lambda>c. bc_key (cells s ! c)) cs) sub)))"

section \<open>Scenarios\<close>

definition keys_only :: "int list \<Rightarrow> (int \<times> unit option) list" where
  "keys_only ks = map (\<lambda>k. (k, None)) ks"

text \<open>Scenario 1: the keys 10 to 50 into an empty tree of node size 4; shape and size.\<close>

definition tree_10_to_50 :: "unit store res" where
  "tree_10_to_50 = build 20 4 (keys_only [10, 20, 30, 40, 50])"

definition shape_10_to_50 :: "(shape \<times> int) res" where
  "shape_10_to_50 =
     res_bind tree_10_to_50
       (\<lambda>s. res_bind (shape_of 20 s (bt_root_node (tree s))) (\<lambda>sh. Ret (sh, BB_getSize s)))"

text \<open>
  A list of pairs ordered by their first component: one insert, and a second insert
  whose key compares equal to the first.
\<close>

definition by_fst :: "int \<times> string \<Rightarrow> int \<times> string \<Rightarrow> int" where
  "by_fst a b = fst a - fst b"

definition empty_list_store :: "(int \<times> string) llstore" where
  "empty_list_store = \<lparr>lnodes = [], lists = [new_SortedLinkedList]\<rparr>"

definition one_insert :: "(nat \<times> (int \<times> string) llstore) res" where
  "one_insert = LL_insert 5 by_fst 0 (5, ''first'') empty_list_store"

definition equal_insert :: "(nat \<times> (int \<times> string) llstore) res" where
  "equal_insert = res_bind one_insert (\<lambda>(n, s). LL_insert 5 by_fst 0 (5, ''second'') s)"

text \<open>The unbounded range over the tree of scenario 1.\<close>

definition range_all_10_to_50 :: "int list res" where
  "range_all_10_to_50 =
     res_bind tree_10_to_50
       (\<lambda>s. res_bind (BB_searchForRangeWithPagination 20 int_compare 0 (- 1) None None s)
               (\<lambda>(r, s1). Ret r))"

text \<open>Scenario 5: the keys 10 to 100, then the range from 35 to 75, offset 1, limit 2.\<close>

definition range_35_75 :: "int list res" where
  "range_35_75 =
     res_bind (build 20 4 (keys_only [10, 20, 30, 40, 50, 60, 70, 80, 90, 100]) :: unit store res)
       (\<lambda>s. res_bind (BB_searchForRangeWithPagination 20 int_compare 1 2 (Some 35) (Some 75) s)
               (\<lambda>(r, s1). Ret r))"

text \<open>
  Scenario 3: the key 5 three times with the values 1, 2, 3; then get, delete, get
  again and size.  The result is (get, delete, get after delete, size after delete).
\<close>

definition three_fives :: "(int option \<times> int option \<times> int option \<times> int) res" where
  "three_fives =
     res_bind (build 20 4 [(5, Some 1), (5, Some 2), (5, Some 3)])
       (\<lambda>s0. res_bind (BB_searchForValue 20 int_compare 5 EqualsTo s0)
          (\<lambda>(got, s1). res_bind (BB_deleteKeyReturnValue 20 int_compare 5 s1)
             (\<lambda>(deleted, s2). res_bind (BB_searchForValue 20 int_compare 5 EqualsTo s2)
                (\<lambda>(got_after, s3). Ret (got, deleted, got_after, BB_getSize s3)))))"

text \<open>Scenario 6: ten keys in mixed order, then the middle key; and a tree of one key.\<close>

definition middle_of_ten :: "int option res" where
  "middle_of_ten =
     res_bind (build 20 4 (keys_only [50, 30, 70, 10, 40, 60, 90, 20, 80, 100]) :: unit store res)
       (BB_getMiddleKey 20)"

definition middle_of_one :: "int option res" where
  "middle_of_one = res_bind (build 20 4 (keys_only [7]) :: unit store res) (BB_getMiddleKey 20)"

text \<open>The store that scenario 1 ends in, written out.\<close>

definition store_10_to_50 :: "unit store" where
  "store_10_to_50 =
     \<lparr>lnodes =
        [\<lparr>ln_rightSibling = Some 1, ln_leftSibling = None, ln_duplicate_count = 0, ln_key = 0\<rparr>,
         \<lparr>ln_rightSibling = Some 2, ln_leftSibling = Some 0, ln_duplicate_count = 0, ln_key = 2\<rparr>,
         \<lparr>ln_rightSibling = None, ln_leftSibling = Some 1, ln_duplicate_count = 0, ln_key = 4\<rparr>,
         \<lparr>ln_rightSibling = Some 4, ln_leftSibling = None, ln_duplicate_count = 0, ln_key = 6\<rparr>,
         \<lparr>ln_rightSibling = None, ln_leftSibling = Some 3, ln_duplicate_count = 0, ln_key = 8\<rparr>,
         \<lparr>ln_rightSibling = None, ln_leftSibling = None, ln_duplicate_count = 0, ln_key = 9\<rparr>],
       lists =
        [\<lparr>sl_min = Some 0, sl_max = Some 2, sl_count = 3\<rparr>,
         \<lparr>sl_min = Some 3, sl_max = Some 2, sl_count = 2\<rparr>,
         \<lparr>sl_min = None, sl_max = None, sl_count = 0\<rparr>,
         \<lparr>sl_min = Some 5, sl_max = Some 5, sl_count = 1\<rparr>],
       cells =
        [\<lparr>bc_key = 10, bc_value = None, bc_right_child_node = None, bc_parentNodeForRightChildNode = Some 0\<rparr>,
         \<lparr>bc_key = 20, bc_value = None, bc_right_child_node = None, bc_parentNodeForRightChildNode = None\<rparr>,
         \<lparr>bc_key = 20, bc_value = None, bc_right_child_node = None, bc_parentNodeForRightChildNode = Some 0\<rparr>,
         \<lparr>bc_key = 30, bc_value = None, bc_right_child_node = None, bc_parentNodeForRightChildNode = None\<rparr>,
         \<lparr>bc_key = 30, bc_value = None, bc_right_child_node = None, bc_parentNodeForRightChildNode = Some 0\<rparr>,
         \<lparr>bc_key = 40, bc_value = None, bc_right_child_node = None, bc_parentNodeForRightChildNode = None\<rparr>,
         \<lparr>bc_key = 40, bc_value = None, bc_right_child_node = None, bc_parentNodeForRightChildNode = Some 0\<rparr>,
         \<lparr>bc_key = 50, bc_value = None, bc_right_child_node = None, bc_parentNodeForRightChildNode = None\<rparr>,
         \<lparr>bc_key = 50, bc_value = None, bc_right_child_node = None, bc_parentNodeForRightChildNode = Some 0\<rparr>,
         \<lparr>bc_key = 30, bc_value = None, bc_right_child_node = Some 1, bc_parentNodeForRightChildNode = Some 2\<rparr>],
       bnodes =
        [\<lparr>bn_parent_cell = None, bn_rightSibling = Some 1, bn_leftSibling = None, bn_parent_node = Some 2, bn_cellsList = 0, bn_left_most_child = None, bn_isLeaf = True\<rparr>,
         \<lparr>bn_parent_cell = Some 9, bn_rightSibling = None, bn_leftSibling = Some 0, bn_parent_node = Some 2, bn_cellsList = 1, bn_left_most_child = None, bn_isLeaf = True\<rparr>,
         \<lparr>bn_parent_cell = None, bn_rightSibling = None, bn_leftSibling = None, bn_parent_node = None, bn_cellsList = 3, bn_left_most_child = Some 0, bn_isLeaf = False\<rparr>],
       tree =
         \<lparr>bt_left_most_node = Some 0, bt_right_most_node = Some 1, bt_root_node = Some 2, bt_size = 5, bt_half_capacity = 2, bt_max_node_size = 4\<rparr>\<rparr>"

text \<open>The cell that \<open>createBPlusCell(key)\<close> makes for a search.\<close>

definition probe :: "int \<Rightarrow> 'v BPlusCell" where
  "probe key =
     \<lparr>bc_key = key, bc_value = None, bc_right_child_node = None,
      bc_parentNodeForRightChildNode = None\<rparr>"

text \<open>A store with the cells of \<open>n\<close> searches for \<open>key\<close> added, and nothing else changed.\<close>

definition with_probes :: "int \<Rightarrow> nat \<Rightarrow> 'v store \<Rightarrow> 'v store" where
  "with_probes key n s = s\<lparr>cells := cells s @ replicate n (probe key)\<rparr>"

text \<open>The store that scenario 6 ends in, written out.\<close>

definition store_ten :: "unit store" where
  "store_ten =
     \<lparr>lnodes =
        [\<lparr>ln_rightSibling = Some 6, ln_leftSibling = None, ln_duplicate_count = 0, ln_key = 0\<rparr>,
         \<lparr>ln_rightSibling = Some 4, ln_leftSibling = Some 8, ln_duplicate_count = 0, ln_key = 2\<rparr>,
         \<lparr>ln_rightSibling = None, ln_leftSibling = Some 6, ln_duplicate_count = 0, ln_key = 4\<rparr>,
         \<lparr>ln_rightSibling = Some 8, ln_leftSibling = None, ln_duplicate_count = 0, ln_key = 6\<rparr>,
         \<lparr>ln_rightSibling = None, ln_leftSibling = Some 1, ln_duplicate_count = 0, ln_key = 8\<rparr>,
         \<lparr>ln_rightSibling = Some 10, ln_leftSibling = None, ln_duplicate_count = 0, ln_key = 9\<rparr>,
         \<lparr>ln_rightSibling = Some 2, ln_leftSibling = Some 0, ln_duplicate_count = 0, ln_key = 11\<rparr>,
         \<lparr>ln_rightSibling = Some 11, ln_leftSibling = Some 9, ln_duplicate_count = 0, ln_key = 13\<rparr>,
         \<lparr>ln_rightSibling = Some 1, ln_leftSibling = Some 3, ln_duplicate_count = 0, ln_key = 15\<rparr>,
         \<lparr>ln_rightSibling = Some 7, ln_leftSibling = None, ln_duplicate_count = 0, ln_key = 17\<rparr>,
         \<lparr>ln_rightSibling = None, ln_leftSibling = Some 5, ln_duplicate_count = 0, ln_key = 18\<rparr>,
         \<lparr>ln_rightSibling = None, ln_leftSibling = Some 7, ln_duplicate_count = 0, ln_key = 20\<rparr>],
       lists =
        [\<lparr>sl_min = Some 3, sl_max = Some 4, sl_count = 4\<rparr>,
         \<lparr>sl_min = Some 0, sl_max = Some 2, sl_count = 3\<rparr>,
         \<lparr>sl_min = None, sl_max = None, sl_count = 0\<rparr>,
         \<lparr>sl_min = Some 5, sl_max = Some 10, sl_count = 2\<rparr>,
         \<lparr>sl_min = Some 9, sl_max = Some 2, sl_count = 3\<rparr>,
         \<lparr>sl_min = None, sl_max = None, sl_count = 0\<rparr>],
       cells =
        [\<lparr>bc_key = 50, bc_value = None,
          bc_right_child_node = None, bc_parentNodeForRightChildNode = Some 0\<rparr>,
         \<lparr>bc_key = 30, bc_value = None,
          bc_right_child_node = None, bc_parentNodeForRightChildNode = None\<rparr>,
         \<lparr>bc_key = 30, bc_value = None,
          bc_right_child_node = None, bc_parentNodeForRightChildNode = Some 0\<rparr>,
         \<lparr>bc_key = 70, bc_value = None,
          bc_right_child_node = None, bc_parentNodeForRightChildNode = None\<rparr>,
         \<lparr>bc_key = 70, bc_value = None,
          bc_right_child_node = None, bc_parentNodeForRightChildNode = Some 0\<rparr>,
         \<lparr>bc_key = 10, bc_value = None,
          bc_right_child_node = None, bc_parentNodeForRightChildNode = None\<rparr>,
         \<lparr>bc_key = 10, bc_value = None,
          bc_right_child_node = None, bc_parentNodeForRightChildNode = Some 0\<rparr>,
         \<lparr>bc_key = 40, bc_value = None,
          bc_right_child_node = None, bc_parentNodeForRightChildNode = None\<rparr>,
         \<lparr>bc_key = 40, bc_value = None,
          bc_right_child_node = None, bc_parentNodeForRightChildNode = Some 0\<rparr>,
         \<lparr>bc_key = 40, bc_value = None,
          bc_right_child_node = Some 1, bc_parentNodeForRightChildNode = Some 2\<rparr>,
         \<lparr>bc_key = 60, bc_value = None,
          bc_right_child_node = None, bc_parentNodeForRightChildNode = None\<rparr>,
         \<lparr>bc_key = 60, bc_value = None,
          bc_right_child_node = None, bc_parentNodeForRightChildNode = Some 1\<rparr>,
         \<lparr>bc_key = 90, bc_value = None,
          bc_right_child_node = None, bc_parentNodeForRightChildNode = None\<rparr>,
         \<lparr>bc_key = 90, bc_value = None,
          bc_right_child_node = None, bc_parentNodeForRightChildNode = Some 1\<rparr>,
         \<lparr>bc_key = 20, bc_value = None,
          bc_right_child_node = None, bc_parentNodeForRightChildNode = None\<rparr>,
         \<lparr>bc_key = 20, bc_value = None,
          bc_right_child_node = None, bc_parentNodeForRightChildNode = Some 0\<rparr>,
         \<lparr>bc_key = 80, bc_value = None,
          bc_right_child_node = None, bc_parentNodeForRightChildNode = None\<rparr>,
         \<lparr>bc_key = 80, bc_value = None,
          bc_right_child_node = None, bc_parentNodeForRightChildNode = Some 1\<rparr>,
         \<lparr>bc_key = 70, bc_value = None,
          bc_right_child_node = Some 3, bc_parentNodeForRightChildNode = Some 2\<rparr>,
         \<lparr>bc_key = 100, bc_value = None,
          bc_right_child_node = None, bc_parentNodeForRightChildNode = None\<rparr>,
         \<lparr>bc_key = 100, bc_value = None,
          bc_right_child_node = None, bc_parentNodeForRightChildNode = Some 3\<rparr>],
       bnodes =
        [\<lparr>bn_parent_cell = None, bn_rightSibling = Some 1, bn_leftSibling = None,
          bn_parent_node = Some 2, bn_cellsList = 0, bn_left_most_child = None, bn_isLeaf = True\<rparr>,
         \<lparr>bn_parent_cell = Some 9, bn_rightSibling = Some 3, bn_leftSibling = Some 0,
          bn_parent_node = Some 2, bn_cellsList = 1, bn_left_most_child = None, bn_isLeaf = True\<rparr>,
         \<lparr>bn_parent_cell = None, bn_rightSibling = None, bn_leftSibling = None,
          bn_parent_node = None, bn_cellsList = 3, bn_left_most_child = Some 0, bn_isLeaf = False\<rparr>,
         \<lparr>bn_parent_cell = Some 18, bn_rightSibling = None, bn_leftSibling = Some 1,
          bn_parent_node = Some 2, bn_cellsList = 4, bn_left_most_child = None, bn_isLeaf = True\<rparr>],
       tree =
         \<lparr>bt_left_most_node = Some 0, bt_right_most_node = Some 3, bt_root_node = Some 2,
          bt_size = 10, bt_half_capacity = 2, bt_max_node_size = 4\<rparr>\<rparr>"

definition middle_of_three :: "int option res" where
  "middle_of_three = res_bind (build 20 4 (keys_only [10, 20, 30]) :: unit store res) (BB_getMiddleKey 20)"

text \<open>
  A path of nodes along \<open>rightSibling\<close>, starting at \<open>p\<close>; and the cell counts of the nodes
  of a path, added up.
\<close>

fun leaf_path :: "BPlusNode list \<Rightarrow> nat list \<Rightarrow> nat option \<Rightarrow> bool" where
  "leaf_path ns [] p = True"
| "leaf_path ns (a # as) p = (p = Some a \<and> leaf_path ns as (bn_rightSibling (ns ! a)))"

definition cells_in :: "'v store \<Rightarrow> nat list \<Rightarrow> int" where
  "cells_in s as = sum_list (map (bn_size s) as)"

text \<open>The store of a new tree of node size 4, and the store after the one insert of 7.\<close>

definition store_empty :: "unit store" where
  "store_empty =
     \<lparr>lnodes = [], lists = [], cells = [], bnodes = [],
      tree = \<lparr>bt_left_most_node = None, bt_right_most_node = None, bt_root_node = None,
              bt_size = 0, bt_half_capacity = 2, bt_max_node_size = 4\<rparr>\<rparr>"

definition store_one :: "unit store" where
  "store_one =
     \<lparr>lnodes = [\<lparr>ln_rightSibling = None, ln_leftSibling = None, ln_duplicate_count = 0, ln_key = 0\<rparr>],
      lists = [\<lparr>sl_min = Some 0, sl_max = Some 0, sl_count = 1\<rparr>],
      cells = [\<lparr>bc_key = 7, bc_value = None, bc_right_child_node = None,
                bc_parentNodeForRightChildNode = Some 0\<rparr>],
      bnodes = [\<lparr>bn_parent_cell = None, bn_rightSibling = None, bn_leftSibling = None,
                 bn_parent_node = None, bn_cellsList = 0, bn_left_most_child = None,
                 bn_isLeaf = True\<rparr>],
      tree = \<lparr>bt_left_most_node = Some 0, bt_right_most_node = Some 0, bt_root_node = Some 0,
              bt_size = 1, bt_half_capacity = 2, bt_max_node_size = 4\<rparr>\<rparr>"

text \<open>
  A doubly linked chain in a store of list nodes: \<open>dchain ns prev as p\<close> says that \<open>p\<close>
  is the first of the nodes \<open>as\<close>, each node's \<open>rightSibling\<close> is the next one and its
  \<open>leftSibling\<close> the one before (\<open>prev\<close> for the first), and the last has no
  \<open>rightSibling\<close>.  A list object holds the nodes \<open>as\<close> when its \<open>min\<close> starts their chain,
  its \<open>max\<close> is the last of them and its \<open>count\<close> is their number.
\<close>

fun dchain :: "'k LinkedNode list \<Rightarrow> nat option \<Rightarrow> nat list \<Rightarrow> nat option \<Rightarrow> bool" where
  "dchain ns prev [] p = (p = None)"
| "dchain ns prev (a # as) p =
     (p = Some a \<and> a < length ns \<and> ln_leftSibling (ns ! a) = prev \<and>
      dchain ns (Some a) as (ln_rightSibling (ns ! a)))"

definition list_holds :: "('k, 'm) llstore_scheme \<Rightarrow> nat \<Rightarrow> nat list \<Rightarrow> bool" where
  "list_holds s l as =
     (l < length (lists s) \<and> distinct as \<and>
      dchain (lnodes s) None as (sl_min (lists s ! l)) \<and>
      sl_max (lists s ! l) = (if as = [] then None else Some (last as)) \<and>
      sl_count (lists s ! l) = int (length as))"

text \<open>Lists of integers for the examples: 5, 6, 7 (inserted as 5, 7, 6), and 5 alone.\<close>

definition int_order :: "int \<Rightarrow> int \<Rightarrow> int" where
  "int_order a b = a - b"

definition list_of_three :: "int llstore" where
  "list_of_three =
     \<lparr>lnodes = [\<lparr>ln_rightSibling = Some 2, ln_leftSibling = None, ln_duplicate_count = 0, ln_key = 5\<rparr>,
                \<lparr>ln_rightSibling = None, ln_leftSibling = Some 2, ln_duplicate_count = 0, ln_key = 7\<rparr>,
                \<lparr>ln_rightSibling = Some 1, ln_leftSibling = Some 0, ln_duplicate_count = 0, ln_key = 6\<rparr>],
      lists = [\<lparr>sl_min = Some 0, sl_max = Some 1, sl_count = 3\<rparr>]\<rparr>"

definition list_of_one :: "int llstore" where
  "list_of_one =
     \<lparr>lnodes = [\<lparr>ln_rightSibling = None, ln_leftSibling = None, ln_duplicate_count = 0, ln_key = 5\<rparr>],
      lists = [\<lparr>sl_min = Some 0, sl_max = Some 0, sl_count = 1\<rparr>]\<rparr>"

definition three_inserts :: "int llstore res" where
  "three_inserts =
     res_bind (LL_insert 5 int_order 0 5 \<lparr>lnodes = [], lists = [new_SortedLinkedList]\<rparr>)
       (\<lambda>(n1, s1). res_bind (LL_insert 5 int_order 0 7 s1)
          (\<lambda>(n2, s2). res_bind (LL_insert 5 int_order 0 6 s2) (\<lambda>(n3, s3). Ret s3)))"

section \<open>Trees in a store, and the descent as specified\<close>

text \<open>
  A tree drawn over a store: a leaf is a node flagged as leaf; an interior node has a
  left-most child and a cell list whose chain of list nodes is given with, for each list
  node, the subtree that its cell's \<open>right_child_node\<close> points to.  \<open>holds_tree\<close> says
  that the store has these nodes, flags, chains and child pointers.
\<close>

datatype atree = ALeaf nat | ANode nat atree "(nat \<times> atree) list"

fun aroot :: "atree \<Rightarrow> nat" where
  "aroot (ALeaf n) = n"
| "aroot (ANode n lmc cs) = n"

fun holds_tree :: "'v store \<Rightarrow> atree \<Rightarrow> bool" where
  "holds_tree s (ALeaf n) = bn_isLeaf (bnodes s ! n)"
| "holds_tree s (ANode n lmc cs) =
     (\<not> bn_isLeaf (bnodes s ! n) \<and>
      bn_left_most_child (bnodes s ! n) = Some (aroot lmc) \<and> holds_tree s lmc \<and>
      dchain (lnodes s) None (map fst cs) (sl_min (lists s ! bn_cellsList (bnodes s ! n))) \<and>
      (\<forall>(a, t) \<in> set cs.
          ln_key (lnodes s ! a) < length (cells s) \<and>
          bc_right_child_node (cells s ! ln_key (lnodes s ! a)) = Some (aroot t) \<and>
          holds_tree s t))"

text \<open>
  The descent in the words of the specification.  \<open>spec_le_scan\<close> is the LE-search: a scan
  from the left that returns the position of the first equal cell, remembers the last
  smaller cell, and stops at the first greater one.  \<open>spec_child\<close> is the choice at an
  interior node: with no match the left-most child; with an equal match the right child
  of the previous cell, or the left-most child when the match is the first cell; with a
  smaller match the right child of the matched cell.  \<open>spec_find_leaf\<close> repeats the
  choice down to a leaf.  \<open>against\<close> compares the search cell with the cell of a list node.
\<close>

fun spec_le_scan :: "('a \<Rightarrow> int) \<Rightarrow> 'a list \<Rightarrow> nat \<Rightarrow> nat option \<Rightarrow> nat option" where
  "spec_le_scan c [] i lte = lte"
| "spec_le_scan c (a # as) i lte =
     (if c a = 0 then Some i
      else if 0 < c a then spec_le_scan c as (Suc i) (Some i)
      else lte)"

definition spec_child :: "(nat \<Rightarrow> int) \<Rightarrow> atree \<Rightarrow> (nat \<times> atree) list \<Rightarrow> atree" where
  "spec_child c lmc cs =
     (case spec_le_scan c (map fst cs) 0 None of
        None \<Rightarrow> lmc
      | Some j \<Rightarrow>
          if c (fst (cs ! j)) = 0 then (if j = 0 then lmc else snd (cs ! (j - 1)))
          else snd (cs ! j))"

lemma spec_le_scan_range:
  "spec_le_scan c as i lte = Some j \<Longrightarrow> lte = Some j \<or> (i \<le> j \<and> j < i + length as)"
proof (induction as arbitrary: i lte)
  case Nil
  then show ?case by simp
next
  case (Cons a as)
  show ?case
  proof (cases "c a = 0")
    case True
    with Cons.prems show ?thesis by simp
  next
    case False
    show ?thesis
    proof (cases "0 < c a")
      case True
      with False Cons.prems have "spec_le_scan c as (Suc i) (Some i) = Some j" by simp
      from Cons.IH [OF this] show ?thesis by auto
    next
      case neg: False
      with False Cons.prems show ?thesis by simp
    qed
  qed
qed

lemma size_nth_child: "j < length cs \<Longrightarrow> size (snd (cs ! j)) < size (ANode n lmc cs)"
proof (induction cs arbitrary: j)
  case Nil
  then show ?case by simp
next
  case (Cons x cs)
  show ?case
  proof (cases j)
    case 0
    then show ?thesis by (cases x) simp
  next
    case (Suc i)
    with Cons.prems have "i < length cs" by simp
    from Cons.IH [OF this] show ?thesis
      using Suc by (cases x) simp
  qed
qed

lemma spec_child_cases:
  "spec_child c lmc cs = lmc \<or> (\<exists>j < length cs. spec_child c lmc cs = snd (cs ! j))"
proof (cases "spec_le_scan c (map fst cs) 0 None")
  case None
  then show ?thesis by (simp add: spec_child_def)
next
  case (Some j)
  from spec_le_scan_range [OF Some] have j: "j < length cs" by simp
  show ?thesis
  proof (cases "c (fst (cs ! j)) = 0")
    case True
    show ?thesis
    proof (cases "j = 0")
      case True
      with \<open>c (fst (cs ! j)) = 0\<close> show ?thesis by (simp add: spec_child_def Some)
    next
      case False
      with j have "j - 1 < length cs" by simp
      moreover from False True have "spec_child c lmc cs = snd (cs ! (j - 1))"
        by (simp add: spec_child_def Some)
      ultimately show ?thesis by blast
    qed
  next
    case False
    then have "spec_child c lmc cs = snd (cs ! j)"
      by (simp add: spec_child_def Some)
    with j show ?thesis by blast
  qed
qed

lemma size_spec_child: "size (spec_child c lmc cs) < size (ANode n lmc cs)"
  using spec_child_cases [of c lmc cs] size_nth_child [of _ cs n lmc] by auto

function spec_find_leaf :: "(nat \<Rightarrow> int) \<Rightarrow> atree \<Rightarrow> nat" where
  "spec_find_leaf c (ALeaf n) = n"
| "spec_find_leaf c (ANode n lmc cs) = spec_find_leaf c (spec_child c lmc cs)"
  by pat_completeness auto
termination
  by (relation "measure (\<lambda>(c, t). size t)") (auto simp: size_spec_child simp del: atree.size)


definition against :: "'v comparator \<Rightarrow> nat \<Rightarrow> 'v store \<Rightarrow> nat \<Rightarrow> int" where
  "against compare searchKey s a = compare (cells s ! searchKey) (cells s ! ln_key (lnodes s ! a))"

text \<open>The tree that \<open>store_ten\<close> holds.\<close>

definition tree_of_ten :: atree where
  "tree_of_ten = ANode 2 (ALeaf 0) [(5, ALeaf 1), (10, ALeaf 3)]"

section \<open>Evaluation\<close>

lemma res_bind_simps:
  "res_bind (Ret x) f = f x" "res_bind (Throw e) f = Throw e" "res_bind Timeout f = Timeout"
  by (simp_all add: res_bind_def)

lemma deref_simps: "deref None f = Throw NullDeref" "deref (Some x) f = f x"
  by (simp_all add: deref_def)

lemma rethrow_simps:
  "rethrow (Ret x) = Ret x" "rethrow (Throw e) = Throw (Balancing e)" "rethrow Timeout = Timeout"
  by (simp_all add: rethrow_def)

text \<open>
  Congruence rules that make the simplifier run a call before it looks at the
  continuation, as the program does.
\<close>

lemma res_bind_cong: "m = m' \<Longrightarrow> res_bind m f = res_bind m' f"
  by simp

lemma deref_cong: "r = r' \<Longrightarrow> deref r f = deref r' f"
  by simp

lemmas run_congs = res_bind_cong deref_cong let_weak_cong prod.case_cong_weak

lemmas store_defs =
  alloc_list_def alloc_lnode_def upd_tree_def upd_bnode_def upd_bnode_opt_def upd_cell_def
  upd_list_def upd_lnode_def upd_lnode_opt_def new_SortedLinkedList_def new_LinkedNode_def
  on_refs_def bn_size_def or_else_def

lemmas LL_defs =
  LL_search_def LL_insert_def LL_deleteNode_def LL_splitAt_def LL_mergeSplittedRightIntoLeft_def
  LL_mergeSplittedLeftIntoRight_def LL_searchTillStream_def

lemmas BB_defs =
  new_store_def new_BPlusTree_def js_rem_def createBPlusNode_def createBPlusCell_def
  setAsCellsList_def reinforceParentShipInChildNodes_def setAsLeftMostChildNode_def
  determineBalancingCase_def find_effective_parent_cell_def BB_split_def BB_merge_def
  BB_distribute_def descend_step_def BB_searchForLeafNode_def BB_searchForValue_def
  BB_searchForKey_def BB_insert_def delete_with_def BB_deleteKey_def BB_deleteKeyReturnValue_def
  BB_getSize_def BB_getMiddleKey_def resolve_leaf_def probe_cell_def collect_leaf_def
  range_with_def BB_searchForRangeWithPagination_def BB_searchForRangeWithPaginationV_def
  BB_searchForRangeWithPaginationKVP_def int_compare_def build_def keys_only_def

lemmas run_defs =
  res_bind_simps deref_simps rethrow_simps eval_nat_numeral Let_def store_defs LL_defs BB_defs

section \<open>The scenarios, run\<close>

lemma shape_10_to_50_value:
  "shape_10_to_50 = Ret (Interior [30] [Leaf [10, 20, 30], Leaf [40, 50]], 5)"
  unfolding shape_10_to_50_def tree_10_to_50_def
  by (simp add: run_defs cong: run_congs)

text \<open>
  C1, as the code has it.  With \<open>max_node_size = 4\<close> and the integer comparator,
  inserting 10, 20, 30, 40, 50 into an empty tree splits the root leaf after index
  \<open>half_capacity = 2\<close>: the new root is interior and holds one cell of key 30, its left
  subtree is the leaf 10, 20, 30, its right subtree is the leaf 40, 50, and the size is 5.
\<close>

theorem C1_insert_10_to_50_shape:
  "shape_10_to_50 = Ret (Interior [30] [Leaf [10, 20, 30], Leaf [40, 50]], 5)"
  by (rule shape_10_to_50_value)

text \<open>
  C1 as stated asks for the separator 20 over the leaves 10, 20 and 30, 40, 50; the
  scenario does not produce that shape.
\<close>

theorem C1_counterexample:
  "shape_10_to_50 \<noteq> Ret (Interior [20] [Leaf [10, 20], Leaf [30, 40, 50]], 5)"
  by (simp add: shape_10_to_50_value)

text \<open>
  C2, at a failing input.  A list holds the one key \<open>(5, ''first'')\<close>, with count 1.
  Inserting \<open>(5, ''second'')\<close>, which compares equal to it, returns the existing node,
  raises its duplicate count to 1 and overwrites its key with the new one, as claimed;
  but the count of the list drops from 1 to 0 where the claim leaves it unchanged
  (\<open>list.count--\<close> is followed by an early return that skips the final \<open>list.count++\<close>).
\<close>

theorem C2_equal_insert_decrements_count:
  "one_insert =
     Ret (0, \<lparr>lnodes = [\<lparr>ln_rightSibling = None, ln_leftSibling = None, ln_duplicate_count = 0,
                         ln_key = (5, ''first'')\<rparr>],
              lists = [\<lparr>sl_min = Some 0, sl_max = Some 0, sl_count = 1\<rparr>]\<rparr>) \<and>
   equal_insert =
     Ret (0, \<lparr>lnodes = [\<lparr>ln_rightSibling = None, ln_leftSibling = None, ln_duplicate_count = 1,
                         ln_key = (5, ''second'')\<rparr>,
                        \<lparr>ln_rightSibling = None, ln_leftSibling = None, ln_duplicate_count = 0,
                         ln_key = (5, ''second'')\<rparr>],
              lists = [\<lparr>sl_min = Some 0, sl_max = Some 0, sl_count = 0\<rparr>]\<rparr>)"
  unfolding equal_insert_def one_insert_def empty_list_store_def
  by (simp add: run_defs by_fst_def cong: run_congs)

text \<open>
  C6, at a failing input and at the scenario.  Over the tree of the keys 10 to 50 the
  unbounded range with offset 0 and no limit returns 10, 20, 30 and loses 40 and 50: the
  right leaf made by the split has the left leaf's last node as its \<open>max\<close>, and an absent
  end key makes \<open>searchTillStream\<close> stop at \<open>max\<close>.  The scenario of the claim, with both
  bounds given, returns 50, 60 as claimed.
\<close>

theorem C6_range_after_split:
  "range_all_10_to_50 = Ret [10, 20, 30] \<and> range_35_75 = Ret [50, 60]"
  unfolding range_all_10_to_50_def tree_10_to_50_def range_35_75_def
  by (simp add: run_defs cong: run_congs)

text \<open>
  C7, at a failing input.  The key 5 is inserted three times, with the values 1, 2, 3,
  into an empty tree of node size 4.  Then get returns the latest value 3, delete returns
  3, and get returns nothing afterwards, as claimed; but the size after the delete is 2,
  not 0.  The second insert drops the leaf's count to 0 (the defect of C2), balancing
  then removes the root, the third insert starts a new root, and the delete finds one
  node without duplicates.
\<close>

theorem C7_three_equal_inserts:
  "three_fives = Ret (Some 3, Some 3, None, 2)"
  unfolding three_fives_def
  by (simp add: run_defs cong: run_congs)

lemma tree_10_to_50_value: "tree_10_to_50 = Ret store_10_to_50"
  unfolding tree_10_to_50_def store_10_to_50_def
  by (simp add: run_defs cong: run_congs)

text \<open>
  The loop of the range functions does not advance once \<open>currentNode\<close> is \<open>undefined\<close>
  while \<open>endNode\<close> is a node: no budget of iterations lets it return.
\<close>

lemma range_loop_stuck:
  "range_loop fuel budget emit compare offset limit startKey endKey (Some e) None acc s = Timeout"
proof (induction fuel arbitrary: s)
  case 0
  show ?case by simp
next
  case (Suc fuel)
  show ?case by (simp add: Suc Let_def split: prod.splits)
qed

lemma small_or_large:
  "fuel = 0 \<or> fuel = Suc 0 \<or> fuel = Suc (Suc 0) \<or> fuel = Suc (Suc (Suc 0)) \<or>
   fuel = Suc (Suc (Suc (Suc 0))) \<or> (\<exists>n. fuel = Suc (Suc (Suc (Suc (Suc n)))))"
  by presburger

lemma range_45_15_diverges:
  "range_with emit fuel int_compare 0 (- 1) (Some 45) (Some 15) store_10_to_50 = Timeout"
proof -
  have small: "range_with emit k int_compare 0 (- 1) (Some 45) (Some 15) store_10_to_50 = Timeout"
    if "k = 0 \<or> k = Suc 0 \<or> k = Suc (Suc 0) \<or> k = Suc (Suc (Suc 0)) \<or> k = Suc (Suc (Suc (Suc 0)))"
    for k
    using that unfolding store_10_to_50_def
    by (elim disjE) (simp_all add: run_defs range_loop_stuck cong: run_congs)
  have large: "range_with emit (Suc (Suc (Suc (Suc (Suc n))))) int_compare 0 (- 1) (Some 45) (Some 15)
                 store_10_to_50 = Timeout" for n
    unfolding store_10_to_50_def
    by (simp add: run_defs range_loop_stuck cong: run_congs)
  from small_or_large [of fuel] show ?thesis
    using small large by blast
qed

text \<open>
  C4, at a failing input.  In the tree of scenario 1, the start key 45 resolves to the
  right leaf and the end key 15 to the left leaf.  The loop \<open>while (currentNode !==
  endNode)\<close> walks right from the start leaf, reaches \<open>undefined\<close> at the end of the leaf
  chain and stays there: the key range and the key-value range answer \<open>Timeout\<close> for
  every budget of iterations, that is, they never return.
\<close>

theorem C4_range_never_returns:
  "tree_10_to_50 = Ret store_10_to_50 \<and>
   BB_searchForRangeWithPagination fuel int_compare 0 (- 1) (Some 45) (Some 15) store_10_to_50 = Timeout \<and>
   BB_searchForRangeWithPaginationKVP fuel int_compare 0 (- 1) (Some 45) (Some 15) store_10_to_50 = Timeout"
  by (simp add: tree_10_to_50_value BB_searchForRangeWithPagination_def
      BB_searchForRangeWithPaginationKVP_def range_45_15_diverges)

text \<open>
  C9, as the code has it.  The constructor has one check, \<open>max_node_size % 2 === 1\<close>, and
  none against sizes below 4.  For a non-negative \<open>max_node_size\<close> it fails, with the
  error "node_size for tree must be an even number", if and only if \<open>max_node_size\<close> is
  odd; for every even \<open>max_node_size\<close>, 0 and 2 included, it succeeds and sets
  \<open>half_capacity = max_node_size / 2\<close>.
\<close>

theorem C9_constructor:
  "(0 \<le> m \<longrightarrow>
      (new_BPlusTree m = Throw (Thrown ''node_size for tree must be an even number'') \<longleftrightarrow> odd m)) \<and>
   (even m \<longrightarrow>
      new_BPlusTree m =
        Ret \<lparr>bt_left_most_node = None, bt_right_most_node = None, bt_root_node = None,
             bt_size = 0, bt_half_capacity = m div 2, bt_max_node_size = m\<rparr>)"
proof -
  have odd_case: "js_rem m 2 = 1" if "0 \<le> m" "odd m"
  proof -
    from that have "0 < m" by (cases "m = 0") auto
    moreover from that have "m mod 2 = 1" by presburger
    ultimately show ?thesis by (simp add: js_rem_def)
  qed
  have even_case: "js_rem m 2 = 0" if "even m"
  proof -
    from that have "\<bar>m\<bar> mod 2 = 0" by presburger
    then show ?thesis by (simp add: js_rem_def)
  qed
  show ?thesis
    using odd_case even_case by (cases "even m") (auto simp: new_BPlusTree_def)
qed

theorem C9_constructor_witness:
  "(0::int) \<le> 5 \<and> odd (5::int) \<and>
   new_BPlusTree 5 = Throw (Thrown ''node_size for tree must be an even number'') \<and>
   even (6::int) \<and>
   new_BPlusTree 6 =
     Ret \<lparr>bt_left_most_node = None, bt_right_most_node = None, bt_root_node = None,
          bt_size = 0, bt_half_capacity = 3, bt_max_node_size = 6\<rparr>"
  using C9_constructor [of 5] C9_constructor [of 6] by simp

text \<open>
  C9 as stated makes \<open>new(2)\<close> fail, 2 being less than 4; the constructor returns a tree
  of half capacity 1.
\<close>

theorem C9_counterexample:
  "new_BPlusTree 2 =
     Ret \<lparr>bt_left_most_node = None, bt_right_most_node = None, bt_root_node = None,
          bt_size = 0, bt_half_capacity = 1, bt_max_node_size = 2\<rparr>"
  by (simp add: new_BPlusTree_def js_rem_def)

lemma createBPlusCell_probe:
  "createBPlusCell key None None s = (length (cells s), s\<lparr>cells := cells s @ [probe key]\<rparr>)"
  by (simp add: createBPlusCell_def probe_def)

text \<open>
  C10.  A tree has a root, the descent for \<open>key\<close> reaches a leaf, and the search for an
  equal key in that leaf finds nothing.  Then \<open>deleteKey\<close> and \<open>deleteKeyReturnValue\<close>
  return nothing, and the store they leave differs from the one they started in only by
  the two cells made for the searches, which nothing refers to: the tree record (size,
  root, leftmost and rightmost leaf), every node with its sibling links, every list and
  every list node are as before, and so is every cell that existed.
\<close>

theorem C10_delete_absent_key:
  assumes root: "bt_root_node (tree s) = Some root"
      and leaf: "BB_searchForLeafNode fuel compare key None s = Ret (Some leaf, s1)"
      and absent: "LL_search fuel (on_refs compare (with_probes key 2 s)) (bn_cellsList (bnodes s ! leaf))
                     (Suc (length (cells s))) EqualsTo (with_probes key 2 s) = Ret None"
  shows "BB_deleteKey fuel compare key s = Ret (None, with_probes key 2 s) \<and>
         BB_deleteKeyReturnValue fuel compare key s = Ret (None, with_probes key 2 s) \<and>
         tree (with_probes key 2 s) = tree s \<and>
         bnodes (with_probes key 2 s) = bnodes s \<and>
         lists (with_probes key 2 s) = lists s \<and>
         lnodes (with_probes key 2 s) = lnodes s \<and>
         cells (with_probes key 2 s) = cells s @ [probe key, probe key]"
proof -
  have s1: "s1 = s\<lparr>cells := cells s @ [probe key]\<rparr>"
    using leaf root
    by (auto simp: BB_searchForLeafNode_def createBPlusCell_probe res_bind_def split: res.splits)
  have two: "with_probes key 2 s = s\<lparr>cells := cells s @ [probe key, probe key]\<rparr>"
    by (simp add: with_probes_def numeral_2_eq_2)
  have del: "delete_with project fuel compare key s = Ret (None, with_probes key 2 s)" for project :: "'a BPlusCell \<Rightarrow> 'b option"
    using absent
    by (simp add: delete_with_def root leaf deref_def res_bind_def s1 createBPlusCell_probe two
        LL_deleteNode_def)
  show ?thesis
    by (simp add: BB_deleteKey_def BB_deleteKeyReturnValue_def del) (simp add: two)
qed

theorem C10_delete_absent_key_witness:
  "BB_deleteKey 20 int_compare 25 store_10_to_50 = Ret (None, with_probes 25 2 store_10_to_50) \<and>
   BB_deleteKeyReturnValue 20 int_compare 25 store_10_to_50 = Ret (None, with_probes 25 2 store_10_to_50) \<and>
   tree (with_probes 25 2 store_10_to_50) = tree store_10_to_50 \<and>
   bnodes (with_probes 25 2 store_10_to_50) = bnodes store_10_to_50 \<and>
   lists (with_probes 25 2 store_10_to_50) = lists store_10_to_50 \<and>
   lnodes (with_probes 25 2 store_10_to_50) = lnodes store_10_to_50 \<and>
   cells (with_probes 25 2 store_10_to_50) = cells store_10_to_50 @ [probe 25, probe 25]"
proof -
  have root: "bt_root_node (tree store_10_to_50) = Some 2"
    by (simp add: store_10_to_50_def)
  have leaf: "BB_searchForLeafNode 20 int_compare 25 None store_10_to_50 =
                Ret (Some 0, store_10_to_50\<lparr>cells := cells store_10_to_50 @ [probe 25]\<rparr>)"
    unfolding store_10_to_50_def
    by (simp add: run_defs probe_def cong: run_congs)
  have absent: "LL_search 20 (on_refs int_compare (with_probes 25 2 store_10_to_50))
                  (bn_cellsList (bnodes store_10_to_50 ! 0)) (Suc (length (cells store_10_to_50))) EqualsTo
                  (with_probes 25 2 store_10_to_50) = Ret None"
    unfolding store_10_to_50_def with_probes_def
    by (simp add: run_defs probe_def cong: run_congs)
  show ?thesis
    by (rule C10_delete_absent_key [OF root leaf absent])
qed

lemma store_ten_value:
  "build 20 4 (keys_only [50, 30, 70, 10, 40, 60, 90, 20, 80, 100]) = Ret store_ten"
  unfolding store_ten_def
  by (simp add: run_defs cong: run_congs)

lemma store_empty_value: "new_store 4 = Ret store_empty"
  by (simp add: run_defs store_empty_def)

lemma store_one_value: "build 20 4 (keys_only [7]) = Ret store_one"
  unfolding store_one_def
  by (simp add: run_defs cong: run_congs)

lemma middle_loop_path:
  "leaf_path (bnodes s) (pre @ [leaf]) p \<Longrightarrow>
   (\<forall>k \<le> length pre. c + cells_in s (take k pre) < hs) \<Longrightarrow>
   hs \<le> c + cells_in s pre + bn_size s leaf \<Longrightarrow>
   length pre < fuel \<Longrightarrow>
   middle_loop fuel hs c p s =
     deref (sl_min (lists s ! bn_cellsList (bnodes s ! leaf)))
       (\<lambda>m. Ret (Some (bc_key (cells s ! ln_key (lnodes s ! m)))))"
proof (induction pre arbitrary: c p fuel)
  case Nil
  then obtain f where fuel: "fuel = Suc f" by (cases fuel) auto
  from Nil have "p = Some leaf" "c < hs" "hs \<le> c + bn_size s leaf"
    by (auto simp: cells_in_def)
  then show ?case
    by (simp add: fuel bn_size_def Let_def)
next
  case (Cons a pre)
  then obtain f where fuel: "fuel = Suc f" by (cases fuel) auto
  from Cons.prems(1) have p: "p = Some a" and rest: "leaf_path (bnodes s) (pre @ [leaf]) (bn_rightSibling (bnodes s ! a))"
    by auto
  from Cons.prems(2) [rule_format, of 0] have c: "c < hs" by (simp add: cells_in_def)
  from Cons.prems(2) [rule_format, of 1] have t: "c + bn_size s a < hs" by (simp add: cells_in_def)
  have all: "\<forall>k \<le> length pre. (c + bn_size s a) + cells_in s (take k pre) < hs"
  proof (intro allI impI)
    fix k assume "k \<le> length pre"
    with Cons.prems(2) [rule_format, of "Suc k"] show "(c + bn_size s a) + cells_in s (take k pre) < hs"
      by (simp add: cells_in_def)
  qed
  have last: "hs \<le> (c + bn_size s a) + cells_in s pre + bn_size s leaf"
    using Cons.prems(3) by (simp add: cells_in_def)
  have len: "length pre < f" using Cons.prems(4) fuel by simp
  from Cons.IH [OF rest all last len] c t show ?case
    by (simp add: fuel p bn_size_def Let_def)
qed

lemma middle_of_ten_value: "middle_of_ten = Ret (Some 50)"
  unfolding middle_of_ten_def
  by (simp add: run_defs cong: run_congs)

text \<open>
  C8, as the code has it.  \<open>getMiddleKey\<close> returns nothing on a tree without a leftmost
  leaf, and on every tree of size below 2.  Otherwise it walks the leaf chain from the
  leftmost leaf, adding up the cell counts of the leaves, and at the first leaf where the
  running total reaches \<open>floor(size / 2)\<close> it returns the key of that leaf's min cell, the
  smallest key of the leaf.  After the ten inserts of the scenario it returns 50.
\<close>

theorem C8_middle_key:
  "(bt_left_most_node (tree s) = None \<longrightarrow> BB_getMiddleKey fuel s = Ret None) \<and>
   (bt_size (tree s) < 2 \<and> 0 < fuel \<longrightarrow> BB_getMiddleKey fuel s = Ret None) \<and>
   (leaf_path (bnodes s) (pre @ [leaf]) (bt_left_most_node (tree s)) \<and>
    (\<forall>k \<le> length pre. cells_in s (take k pre) < bt_size (tree s) div 2) \<and>
    bt_size (tree s) div 2 \<le> cells_in s pre + bn_size s leaf \<and>
    length pre < fuel \<longrightarrow>
    BB_getMiddleKey fuel s =
      deref (sl_min (lists s ! bn_cellsList (bnodes s ! leaf)))
        (\<lambda>m. Ret (Some (bc_key (cells s ! ln_key (lnodes s ! m)))))) \<and>
   middle_of_ten = Ret (Some 50)"
proof (intro conjI impI)
  assume "bt_left_most_node (tree s) = None"
  then show "BB_getMiddleKey fuel s = Ret None"
    by (simp add: BB_getMiddleKey_def)
next
  assume a: "bt_size (tree s) < 2 \<and> 0 < fuel"
  then obtain f where fuel: "fuel = Suc f" by (cases fuel) auto
  from a have "bt_size (tree s) div 2 \<le> 0" by presburger
  then show "BB_getMiddleKey fuel s = Ret None"
    by (auto simp: BB_getMiddleKey_def BB_getSize_def fuel Let_def split: option.splits)
next
  assume a: "leaf_path (bnodes s) (pre @ [leaf]) (bt_left_most_node (tree s)) \<and>
    (\<forall>k \<le> length pre. cells_in s (take k pre) < bt_size (tree s) div 2) \<and>
    bt_size (tree s) div 2 \<le> cells_in s pre + bn_size s leaf \<and>
    length pre < fuel"
  then have some: "bt_left_most_node (tree s) \<noteq> None"
    by (cases pre) auto
  from a have "middle_loop fuel (bt_size (tree s) div 2) 0 (bt_left_most_node (tree s)) s =
      deref (sl_min (lists s ! bn_cellsList (bnodes s ! leaf)))
        (\<lambda>m. Ret (Some (bc_key (cells s ! ln_key (lnodes s ! m)))))"
    by (intro middle_loop_path) auto
  with some show "BB_getMiddleKey fuel s =
      deref (sl_min (lists s ! bn_cellsList (bnodes s ! leaf)))
        (\<lambda>m. Ret (Some (bc_key (cells s ! ln_key (lnodes s ! m)))))"
    by (auto simp: BB_getMiddleKey_def BB_getSize_def Let_def)
next
  show "middle_of_ten = Ret (Some 50)" by (rule middle_of_ten_value)
qed

theorem C8_middle_key_witness:
  "bt_left_most_node (tree store_empty) = None \<and>
   BB_getMiddleKey 20 store_empty = Ret None \<and>
   bt_size (tree store_one) < 2 \<and>
   BB_getMiddleKey 20 store_one = Ret None \<and>
   leaf_path (bnodes store_ten) ([0] @ [1]) (bt_left_most_node (tree store_ten)) \<and>
   cells_in store_ten [0] = 4 \<and> bn_size store_ten 1 = 3 \<and> bt_size (tree store_ten) div 2 = 5 \<and>
   BB_getMiddleKey 20 store_ten = Ret (Some 50) \<and>
   middle_of_ten = Ret (Some 50)"
proof -
  have e: "bt_left_most_node (tree store_empty) = None"
    by (simp add: store_empty_def)
  have o: "bt_size (tree store_one) < 2"
    by (simp add: store_one_def)
  have path: "leaf_path (bnodes store_ten) ([0] @ [1]) (bt_left_most_node (tree store_ten))"
    by (simp add: store_ten_def)
  have c0: "cells_in store_ten [0] = 4" and c1: "bn_size store_ten 1 = 3"
    and hs: "bt_size (tree store_ten) div 2 = 5"
    by (simp_all add: store_ten_def cells_in_def bn_size_def)
  have before: "\<forall>k \<le> length [0::nat]. cells_in store_ten (take k [0]) < bt_size (tree store_ten) div 2"
  proof (intro allI impI)
    fix k :: nat assume "k \<le> length [0::nat]"
    then have "k = 0 \<or> k = 1" by auto
    then show "cells_in store_ten (take k [0]) < bt_size (tree store_ten) div 2"
      using c0 hs by (auto simp: cells_in_def)
  qed
  have reach: "bt_size (tree store_ten) div 2 \<le> cells_in store_ten [0] + bn_size store_ten 1"
    using c0 c1 hs by simp
  have m: "deref (sl_min (lists store_ten ! bn_cellsList (bnodes store_ten ! 1)))
        (\<lambda>m. Ret (Some (bc_key (cells store_ten ! ln_key (lnodes store_ten ! m))))) = Ret (Some 50)"
    by (simp add: store_ten_def deref_def)
  from C8_middle_key [of store_empty 20] e have 1: "BB_getMiddleKey 20 store_empty = Ret None" by blast
  from C8_middle_key [of store_one 20] o have 2: "BB_getMiddleKey 20 store_one = Ret None" by simp
  from C8_middle_key [of store_ten 20 "[0]" 1] path before reach
  have 3: "BB_getMiddleKey 20 store_ten = Ret (Some 50)" unfolding m by simp
  from C8_middle_key [of store_ten 20] have 4: "middle_of_ten = Ret (Some 50)" by blast
  show ?thesis using 1 2 3 4 e o path c0 c1 hs by blast
qed

text \<open>
  C8 as stated returns, on every non-empty tree, the key at position \<open>floor(size / 2)\<close> of
  the ascending keys: 7 for the tree of the one key 7, and 20 for the tree of 10, 20, 30.
  The code returns nothing for the first and 10 for the second.
\<close>

theorem C8_counterexample:
  "middle_of_one = Ret None \<and> middle_of_three = Ret (Some 10)"
  unfolding middle_of_one_def middle_of_three_def
  by (simp add: run_defs cong: run_congs)

lemma dchain_start: "dchain ns prev as p \<Longrightarrow> p = (if as = [] then None else Some (hd as))"
  by (cases as) auto

lemma dchain_nth:
  "dchain ns prev as p \<Longrightarrow> j < length as \<Longrightarrow>
   as ! j < length ns \<and>
   ln_leftSibling (ns ! (as ! j)) = (if j = 0 then prev else Some (as ! (j - 1))) \<and>
   ln_rightSibling (ns ! (as ! j)) = (if Suc j < length as then Some (as ! Suc j) else None)"
proof (induction as arbitrary: prev p j)
  case Nil
  then show ?case by simp
next
  case (Cons a as)
  from Cons.prems(1) have a: "a < length ns" "ln_leftSibling (ns ! a) = prev"
    and rest: "dchain ns (Some a) as (ln_rightSibling (ns ! a))" by auto
  show ?case
  proof (cases j)
    case 0
    from dchain_start [OF rest] show ?thesis
      using a 0 by (cases as) auto
  next
    case (Suc i)
    with Cons.prems(2) have "i < length as" by simp
    from Cons.IH [OF rest this] show ?thesis
      using Suc by (cases i) auto
  qed
qed

lemma dchain_intro:
  "p = (if as = [] then None else Some (hd as)) \<Longrightarrow>
   (\<And>j. j < length as \<Longrightarrow>
      as ! j < length ns \<and>
      ln_leftSibling (ns ! (as ! j)) = (if j = 0 then prev else Some (as ! (j - 1))) \<and>
      ln_rightSibling (ns ! (as ! j)) = (if Suc j < length as then Some (as ! Suc j) else None)) \<Longrightarrow>
   dchain ns prev as p"
proof (induction as arbitrary: prev p)
  case Nil
  then show ?case by simp
next
  case (Cons a as)
  from Cons.prems(2) [of 0] have a: "a < length ns" "ln_leftSibling (ns ! a) = prev"
    and r: "ln_rightSibling (ns ! a) = (if as = [] then None else Some (hd as))"
    by (auto simp: hd_conv_nth)
  have "dchain ns (Some a) as (ln_rightSibling (ns ! a))"
  proof (rule Cons.IH [OF r])
    fix j assume j: "j < length as"
    from Cons.prems(2) [of "Suc j"] j
    show "as ! j < length ns \<and>
      ln_leftSibling (ns ! (as ! j)) = (if j = 0 then Some a else Some (as ! (j - 1))) \<and>
      ln_rightSibling (ns ! (as ! j)) = (if Suc j < length as then Some (as ! Suc j) else None)"
      by (cases j) auto
  qed
  with a Cons.prems(1) show ?case by simp
qed

lemma step_right_chain:
  "dchain ns prev as p \<Longrightarrow> step_right k ns p = (if k < length as then Some (as ! k) else None)"
proof (induction k arbitrary: prev as p)
  case 0
  from dchain_start [OF 0] show ?case by (cases as) auto
next
  case (Suc k)
  show ?case
  proof (cases as)
    case Nil
    with Suc.prems have "p = None" by simp
    moreover have "step_right k ns None = None" by (induction k) auto
    ultimately show ?thesis using Nil by simp
  next
    case (Cons a as')
    with Suc.prems have p: "p = Some a" and rest: "dchain ns (Some a) as' (ln_rightSibling (ns ! a))"
      by auto
    from Suc.IH [OF rest] show ?thesis by (simp add: p Cons)
  qed
qed


lemma splitAt_cut:
  assumes h: "list_holds s l as" and k: "0 < k" "k < length as"
  shows "\<exists>s'. LL_splitAt l (int k - 1) s = Ret ((l, length (lists s)), s') \<and>
           list_holds s' l (take k as) \<and>
           sl_max (lists s' ! l) = Some (as ! (k - 1)) \<and>
           dchain (lnodes s') None (drop k as) (sl_min (lists s' ! length (lists s))) \<and>
           sl_min (lists s' ! length (lists s)) = Some (as ! k) \<and>
           sl_count (lists s' ! length (lists s)) = int (length as) - int k \<and>
           length (lnodes s') = length (lnodes s) \<and>
           (\<forall>a. ln_key (lnodes s' ! a) = ln_key (lnodes s ! a))"
proof -
  define ns where "ns = lnodes s"
  define b where "b = as ! (k - 1)"
  define c where "c = as ! k"
  define r where "r = length (lists s)"
  define ns1 where "ns1 = ns[b := (ns ! b)\<lparr>ln_rightSibling := None\<rparr>]"
  define ns2 where "ns2 = ns1[c := (ns1 ! c)\<lparr>ln_leftSibling := None\<rparr>]"
  define S where "S = s\<lparr>lnodes := ns2,
      lists := (lists s)[l := (lists s ! l)\<lparr>sl_count := int k, sl_max := Some b\<rparr>] @
               [\<lparr>sl_min = Some c, sl_max = Some b, sl_count = int (length as) - int k\<rparr>]\<rparr>"
  from h have l: "l < length (lists s)" and dist: "distinct as"
    and ch: "dchain ns None as (sl_min (lists s ! l))"
    and cnt: "sl_count (lists s ! l) = int (length as)"
    by (auto simp: list_holds_def ns_def)
  have mr: "step_right k ns (sl_min (lists s ! l)) = Some c"
    using step_right_chain [OF ch, of k] k by (simp add: c_def)
  have ml: "ln_leftSibling (ns ! c) = Some b"
    using dchain_nth [OF ch, of k] k by (simp add: c_def b_def)
  have bc: "b \<noteq> c"
    using dist k by (auto simp: b_def c_def nth_eq_iff_index_eq)
  have bl: "b < length ns" and cl: "c < length ns"
    using dchain_nth [OF ch, of k] dchain_nth [OF ch, of "k - 1"] k by (auto simp: b_def c_def)
  have nk: "nat (int k - 1 + 1) = k" by simp
  have run: "LL_splitAt l (int k - 1) s = Ret ((l, r), S)"
    using k l bl cl bc
    by (simp add: LL_splitAt_def cnt nk mr ml Let_def store_defs ns_def [symmetric] S_def r_def
        ns2_def ns1_def nth_append)
  have len2: "length ns2 = length ns"
    by (simp add: ns2_def ns1_def)
  have at_b: "ns2 ! b = (ns ! b)\<lparr>ln_rightSibling := None\<rparr>"
    using bc bl by (simp add: ns2_def ns1_def)
  have at_c: "ns2 ! c = (ns ! c)\<lparr>ln_leftSibling := None\<rparr>"
    using bc cl by (simp add: ns2_def ns1_def)
  have other: "ns2 ! x = ns ! x" if "x \<noteq> b" "x \<noteq> c" for x
    using that by (simp add: ns2_def ns1_def)
  have keys: "ln_key (ns2 ! a) = ln_key (ns ! a)" for a
    using at_b at_c other [of a] by (cases "a = b"; cases "a = c") auto
  have idx_b: "as ! j = b \<longleftrightarrow> j = k - 1" if "j < length as" for j
    using that dist k by (auto simp: b_def nth_eq_iff_index_eq)
  have idx_c: "as ! j = c \<longleftrightarrow> j = k" if "j < length as" for j
    using that dist k by (auto simp: c_def nth_eq_iff_index_eq)
  have orig: "as ! j < length ns \<and>
      ln_leftSibling (ns ! (as ! j)) = (if j = 0 then None else Some (as ! (j - 1))) \<and>
      ln_rightSibling (ns ! (as ! j)) = (if Suc j < length as then Some (as ! Suc j) else None)"
    if "j < length as" for j
    using dchain_nth [OF ch that] .
  have min: "sl_min (lists s ! l) = Some (hd as)"
    using dchain_start [OF ch] k by auto
  have left: "dchain ns2 None (take k as) (sl_min (lists s ! l))"
  proof (rule dchain_intro)
    show "sl_min (lists s ! l) = (if take k as = [] then None else Some (hd (take k as)))"
      using min k by (cases as) (auto simp: take_Suc_conv_app_nth)
  next
    fix j assume "j < length (take k as)"
    with k have j: "j < k" "j < length as" by auto
    have neq_c: "as ! j \<noteq> c" using idx_c [OF j(2)] j by simp
    show "take k as ! j < length ns2 \<and>
      ln_leftSibling (ns2 ! (take k as ! j)) = (if j = 0 then None else Some (take k as ! (j - 1))) \<and>
      ln_rightSibling (ns2 ! (take k as ! j)) =
        (if Suc j < length (take k as) then Some (take k as ! Suc j) else None)"
    proof (cases "j = k - 1")
      case True
      then have "as ! j = b" by (simp add: b_def)
      with orig [OF j(2)] j k True show ?thesis
        by (simp add: len2 at_b)
    next
      case False
      then have "as ! j \<noteq> b" using idx_b [OF j(2)] by simp
      moreover from False j have "Suc j < k" by linarith
      ultimately show ?thesis
        using orig [OF j(2)] j k neq_c by (simp add: len2 other)
    qed
  qed
  have right: "dchain ns2 None (drop k as) (Some c)"
  proof (rule dchain_intro)
    show "Some c = (if drop k as = [] then None else Some (hd (drop k as)))"
      using k by (simp add: c_def hd_drop_conv_nth)
  next
    fix j assume "j < length (drop k as)"
    with k have j: "k + j < length as" by auto
    have neq_b: "as ! (k + j) \<noteq> b" using idx_b [OF j] k by simp
    show "drop k as ! j < length ns2 \<and>
      ln_leftSibling (ns2 ! (drop k as ! j)) = (if j = 0 then None else Some (drop k as ! (j - 1))) \<and>
      ln_rightSibling (ns2 ! (drop k as ! j)) =
        (if Suc j < length (drop k as) then Some (drop k as ! Suc j) else None)"
    proof (cases "j = 0")
      case True
      then have "as ! (k + j) = c" by (simp add: c_def)
      with orig [OF j] j k True show ?thesis
        by (auto simp: len2 at_c)
    next
      case False
      then have "as ! (k + j) \<noteq> c" using idx_c [OF j] by simp
      with orig [OF j] j k False neq_b show ?thesis
        by (auto simp: len2 other)
    qed
  qed
  have Sl: "lists S ! l = (lists s ! l)\<lparr>sl_count := int k, sl_max := Some b\<rparr>"
    using l by (simp add: S_def nth_append)
  have Sr: "lists S ! length (lists s) =
      \<lparr>sl_min = Some c, sl_max = Some b, sl_count = int (length as) - int k\<rparr>"
    by (simp add: S_def nth_append)
  have Sn: "lnodes S = ns2" by (simp add: S_def)
  have last: "last (take k as) = b"
  proof -
    from k have "take k as \<noteq> []" by auto
    then have "last (take k as) = take k as ! (length (take k as) - 1)"
      by (rule last_conv_nth)
    also from k have "\<dots> = as ! (k - 1)" by simp
    finally show ?thesis by (simp add: b_def)
  qed
  have Slen: "l < length (lists S)"
    using l by (simp add: S_def)
  have holds: "list_holds S l (take k as)"
    using Slen k dist left last
    by (auto simp: list_holds_def Sl Sn)
  show ?thesis
    apply (rule exI [of _ S])
    using run holds right keys len2 k
    by (simp add: Sl Sr Sn r_def ns_def b_def c_def)
qed

lemma three_inserts_value: "three_inserts = Ret list_of_three"
  unfolding three_inserts_def list_of_three_def
  by (simp add: run_defs int_order_def cong: run_congs)

text \<open>
  C3, as the code has it.  A list holds the nodes \<open>as\<close>, \<open>n\<close> of them.  For \<open>n < 2\<close>
  \<open>splitAt\<close> throws.  For \<open>n \<ge> 2\<close>: with \<open>i = n - 1\<close> it returns the list itself as the
  left half, untouched, and a new empty list as the right half; with \<open>0 \<le> i < n - 1\<close> the
  left half is the list itself, now holding exactly the first \<open>i + 1\<close> nodes, its \<open>max\<close>
  the node at index \<open>i\<close>, and the right half is a new list whose chain from \<open>min\<close> is
  exactly the remaining \<open>n - i - 1\<close> nodes, with \<open>min\<close> the node at index \<open>i + 1\<close> and
  \<open>count = n - i - 1\<close>; no node's key changes; with \<open>i > n - 1\<close> it throws.  Nothing is
  said about a negative \<open>i\<close>, which the code does not check, nor about the right half's
  \<open>max\<close>.
\<close>

theorem C3_splitAt:
  assumes "list_holds s l as"
  shows
    "(length as < 2 \<longrightarrow>
        LL_splitAt l i s = Throw (Thrown ''Size of List to be split must be at least 2'')) \<and>
     (2 \<le> length as \<and> i = int (length as) - 1 \<longrightarrow>
        LL_splitAt l i s =
          Ret ((l, length (lists s)), s\<lparr>lists := lists s @ [new_SortedLinkedList]\<rparr>)) \<and>
     (2 \<le> length as \<and> 0 \<le> i \<and> i < int (length as) - 1 \<longrightarrow>
        (\<exists>s'. LL_splitAt l i s = Ret ((l, length (lists s)), s') \<and>
           list_holds s' l (take (nat i + 1) as) \<and>
           sl_max (lists s' ! l) = Some (as ! nat i) \<and>
           dchain (lnodes s') None (drop (nat i + 1) as) (sl_min (lists s' ! length (lists s))) \<and>
           sl_min (lists s' ! length (lists s)) = Some (as ! (nat i + 1)) \<and>
           sl_count (lists s' ! length (lists s)) = int (length as) - i - 1 \<and>
           length (lnodes s') = length (lnodes s) \<and>
           (\<forall>a. ln_key (lnodes s' ! a) = ln_key (lnodes s ! a)))) \<and>
     (2 \<le> length as \<and> int (length as) - 1 < i \<longrightarrow>
        LL_splitAt l i s = Throw (Thrown ''splitAtIndex must be less than listToSplit.count-1''))"
proof -
  from assms have cnt: "sl_count (lists s ! l) = int (length as)"
    by (simp add: list_holds_def)
  have small: "LL_splitAt l i s = Throw (Thrown ''Size of List to be split must be at least 2'')"
    if "length as < 2"
    using that by (simp add: LL_splitAt_def cnt)
  have whole: "LL_splitAt l i s =
      Ret ((l, length (lists s)), s\<lparr>lists := lists s @ [new_SortedLinkedList]\<rparr>)"
    if "2 \<le> length as" "i = int (length as) - 1"
    using that by (simp add: LL_splitAt_def cnt alloc_list_def)
  have beyond: "LL_splitAt l i s = Throw (Thrown ''splitAtIndex must be less than listToSplit.count-1'')"
    if "2 \<le> length as" "int (length as) - 1 < i"
    using that by (simp add: LL_splitAt_def cnt)
  have cut: "\<exists>s'. LL_splitAt l i s = Ret ((l, length (lists s)), s') \<and>
           list_holds s' l (take (nat i + 1) as) \<and>
           sl_max (lists s' ! l) = Some (as ! nat i) \<and>
           dchain (lnodes s') None (drop (nat i + 1) as) (sl_min (lists s' ! length (lists s))) \<and>
           sl_min (lists s' ! length (lists s)) = Some (as ! (nat i + 1)) \<and>
           sl_count (lists s' ! length (lists s)) = int (length as) - i - 1 \<and>
           length (lnodes s') = length (lnodes s) \<and>
           (\<forall>a. ln_key (lnodes s' ! a) = ln_key (lnodes s ! a))"
    if "2 \<le> length as" "0 \<le> i" "i < int (length as) - 1"
  proof -
    define k where "k = nat i + 1"
    from that have k: "0 < k" "k < length as" by (auto simp: k_def)
    from that have e: "int k - 1 = i" "nat i + 1 = k" "nat i = k - 1"
      "int (length as) - i - 1 = int (length as) - int k"
      by (auto simp: k_def)
    from splitAt_cut [OF assms k] show ?thesis
      unfolding e(2) e(1) e(4) unfolding e(3) .
  qed
  show ?thesis
    using small whole beyond cut by blast
qed

theorem C3_splitAt_witness:
  "list_holds list_of_three 0 [0, 2, 1] \<and>
   LL_splitAt 0 2 list_of_three =
     Ret ((0, 1), list_of_three\<lparr>lists := lists list_of_three @ [new_SortedLinkedList]\<rparr>) \<and>
   (\<exists>s'. LL_splitAt 0 0 list_of_three = Ret ((0, 1), s') \<and>
      list_holds s' 0 [0] \<and> sl_max (lists s' ! 0) = Some 0 \<and>
      dchain (lnodes s') None [2, 1] (sl_min (lists s' ! 1)) \<and>
      sl_min (lists s' ! 1) = Some 2 \<and> sl_count (lists s' ! 1) = 2) \<and>
   LL_splitAt 0 3 list_of_three =
     Throw (Thrown ''splitAtIndex must be less than listToSplit.count-1'') \<and>
   list_holds list_of_one 0 [0] \<and>
   LL_splitAt 0 0 list_of_one = Throw (Thrown ''Size of List to be split must be at least 2'')"
proof -
  have three: "list_holds list_of_three 0 [0, 2, 1]"
    by (simp add: list_holds_def list_of_three_def)
  have one: "list_holds list_of_one 0 [0]"
    by (simp add: list_holds_def list_of_one_def)
  have len: "length (lists list_of_three) = 1"
    by (simp add: list_of_three_def)
  from C3_splitAt [OF three, of 2]
  have a: "LL_splitAt 0 2 list_of_three =
     Ret ((0, 1), list_of_three\<lparr>lists := lists list_of_three @ [new_SortedLinkedList]\<rparr>)"
    by (simp add: len)
  have range: "2 \<le> length [0, 2, 1::nat] \<and> (0::int) \<le> 0 \<and> (0::int) < int (length [0, 2, 1::nat]) - 1"
    by simp
  with C3_splitAt [OF three, of 0] obtain s' where
    "LL_splitAt 0 0 list_of_three = Ret ((0, length (lists list_of_three)), s')"
    "list_holds s' 0 (take (nat 0 + 1) [0, 2, 1])"
    "sl_max (lists s' ! 0) = Some ([0, 2, 1] ! nat 0)"
    "dchain (lnodes s') None (drop (nat 0 + 1) [0, 2, 1]) (sl_min (lists s' ! length (lists list_of_three)))"
    "sl_min (lists s' ! length (lists list_of_three)) = Some ([0, 2, 1] ! (nat 0 + 1))"
    "sl_count (lists s' ! length (lists list_of_three)) = int (length [0, 2, 1::nat]) - 0 - 1"
    by blast
  then have "LL_splitAt 0 0 list_of_three = Ret ((0, 1), s') \<and>
      list_holds s' 0 [0] \<and> sl_max (lists s' ! 0) = Some 0 \<and>
      dchain (lnodes s') None [2, 1] (sl_min (lists s' ! 1)) \<and>
      sl_min (lists s' ! 1) = Some 2 \<and> sl_count (lists s' ! 1) = 2"
    by (simp add: len del: dchain.simps)
  then have b: "\<exists>s'. LL_splitAt 0 0 list_of_three = Ret ((0, 1), s') \<and>
      list_holds s' 0 [0] \<and> sl_max (lists s' ! 0) = Some 0 \<and>
      dchain (lnodes s') None [2, 1] (sl_min (lists s' ! 1)) \<and>
      sl_min (lists s' ! 1) = Some 2 \<and> sl_count (lists s' ! 1) = 2"
    by (rule exI)
  from C3_splitAt [OF three, of 3]
  have c: "LL_splitAt 0 3 list_of_three =
     Throw (Thrown ''splitAtIndex must be less than listToSplit.count-1'')"
    by simp
  from C3_splitAt [OF one, of 0]
  have d: "LL_splitAt 0 0 list_of_one = Throw (Thrown ''Size of List to be split must be at least 2'')"
    by simp
  show ?thesis using three one a b c d by blast
qed

text \<open>
  C3 as stated makes \<open>splitAt\<close> signal a violated precondition for every index outside
  \<open>0 \<le> i \<le> n - 1\<close>.  On the list 5, 6, 7 the index \<open>- 1\<close> is accepted: the call returns,
  leaving the list with count 0 and no \<open>max\<close>, beside a new list of count 3.
\<close>

theorem C3_counterexample:
  "LL_splitAt 0 (- 1) list_of_three =
     Ret ((0, 1),
          list_of_three\<lparr>lists := [\<lparr>sl_min = Some 0, sl_max = None, sl_count = 0\<rparr>,
                                  \<lparr>sl_min = Some 0, sl_max = None, sl_count = 3\<rparr>]\<rparr>)"
  unfolding list_of_three_def
  by (simp add: run_defs cong: run_congs)

lemma search_loop_chain:
  "dchain ns prev as p \<Longrightarrow> length as < fuel \<Longrightarrow> (\<forall>j < length as. all ! (i + j) = as ! j) \<Longrightarrow>
   \<exists>eq lte' gte.
     search_loop fuel cmp key LesserThanOrEqualsTo ns p (None, map_option ((!) all) ltei, g) =
       Ret (eq, lte', gte) \<and>
     or_else eq lte' = map_option ((!) all) (spec_le_scan (\<lambda>a. cmp key (ln_key (ns ! a))) as i ltei)"
proof (induction as arbitrary: prev p fuel i ltei g)
  case Nil
  then obtain f where "fuel = Suc f" by (cases fuel) auto
  with Nil show ?case by (simp add: or_else_def)
next
  case (Cons a as)
  then obtain f where fuel: "fuel = Suc f" by (cases fuel) auto
  from Cons.prems(1) have p: "p = Some a"
    and rest: "dchain ns (Some a) as (ln_rightSibling (ns ! a))" by auto
  from Cons.prems(3) have here: "all ! i = a" by force
  show ?case
  proof (cases "cmp key (ln_key (ns ! a)) = 0")
    case True
    then show ?thesis by (simp add: fuel p or_else_def here)
  next
    case False
    show ?thesis
    proof (cases "0 < cmp key (ln_key (ns ! a))")
      case True
      have len: "length as < f" using Cons.prems(2) fuel by simp
      have idx: "\<forall>j < length as. all ! (Suc i + j) = as ! j"
        using Cons.prems(3) by force
      from Cons.IH [OF rest len idx, of "Some i" g] True False show ?thesis
        by (simp add: fuel p here)
    next
      case neg: False
      with False show ?thesis by (simp add: fuel p or_else_def)
    qed
  qed
qed

lemma LL_search_chain:
  assumes "dchain (lnodes s) None as (sl_min (lists s ! l))" and "length as < fuel"
  shows "LL_search fuel cmp l key LesserThanOrEqualsTo s =
           Ret (map_option ((!) as) (spec_le_scan (\<lambda>a. cmp key (ln_key (lnodes s ! a))) as 0 None))"
proof (cases "sl_min (lists s ! l)")
  case None
  with dchain_start [OF assms(1)] have "as = []" by (auto split: if_splits)
  with None show ?thesis by (simp add: LL_search_def)
next
  case (Some m)
  from search_loop_chain [OF assms(1) assms(2), of as 0 cmp key None None]
  obtain eq lte' gte where
    "search_loop fuel cmp key LesserThanOrEqualsTo (lnodes s) (sl_min (lists s ! l)) (None, None, None) =
       Ret (eq, lte', gte)"
    "or_else eq lte' = map_option ((!) as) (spec_le_scan (\<lambda>a. cmp key (ln_key (lnodes s ! a))) as 0 None)"
    by auto
  then show ?thesis by (simp add: LL_search_def Some res_bind_def)
qed

lemma length_lt_size: "length cs < size (ANode n lmc cs)"
  by (induction cs) auto

lemma holds_tree_nth:
  "holds_tree s (ANode n lmc cs) \<Longrightarrow> j < length cs \<Longrightarrow>
   bc_right_child_node (cells s ! ln_key (lnodes s ! fst (cs ! j))) = Some (aroot (snd (cs ! j))) \<and>
   holds_tree s (snd (cs ! j))"
proof -
  assume h: "holds_tree s (ANode n lmc cs)" and j: "j < length cs"
  then have "cs ! j \<in> set cs" by simp
  with h show ?thesis by (cases "cs ! j") auto
qed

lemma holds_tree_child:
  "holds_tree s (ANode n lmc cs) \<Longrightarrow> holds_tree s (spec_child c lmc cs)"
  using spec_child_cases [of c lmc cs] holds_tree_nth [of s n lmc cs] by auto

lemma descend_step_tree:
  assumes h: "holds_tree s (ANode n lmc cs)" and b: "length cs < budget"
  shows "descend_step budget cmp pr n s = Ret (Some (aroot (spec_child (against cmp pr s) lmc cs)))"
proof -
  let ?c = "against cmp pr s"
  from h have ch: "dchain (lnodes s) None (map fst cs) (sl_min (lists s ! bn_cellsList (bnodes s ! n)))"
    and lmc: "bn_left_most_child (bnodes s ! n) = Some (aroot lmc)" by auto
  have c: "(\<lambda>a. on_refs cmp s pr (ln_key (lnodes s ! a))) = ?c"
    by (rule ext) (simp add: against_def on_refs_def)
  from b have "length (map fst cs) < budget" by simp
  from LL_search_chain [OF ch this, of "on_refs cmp s" pr]
  have found: "LL_search budget (on_refs cmp s) (bn_cellsList (bnodes s ! n)) pr LesserThanOrEqualsTo s =
      Ret (map_option ((!) (map fst cs)) (spec_le_scan ?c (map fst cs) 0 None))"
    by (simp add: c)
  show ?thesis
  proof (cases "spec_le_scan ?c (map fst cs) 0 None")
    case None
    then show ?thesis
      by (simp add: descend_step_def found res_bind_def lmc spec_child_def)
  next
    case (Some j)
    from spec_le_scan_range [OF Some] have j: "j < length cs" by simp
    define a where "a = fst (cs ! j)"
    from found Some j
    have fa: "LL_search budget (on_refs cmp s) (bn_cellsList (bnodes s ! n)) pr LesserThanOrEqualsTo s =
        Ret (Some a)"
      by (simp add: a_def)
    from dchain_nth [OF ch, of j] j
    have left: "ln_leftSibling (lnodes s ! a) = (if j = 0 then None else Some (fst (cs ! (j - 1))))"
      by (simp add: a_def)
    have cmp_eq: "cmp (cells s ! pr) (cells s ! ln_key (lnodes s ! a)) = ?c a"
      by (simp add: against_def)
    have right: "bc_right_child_node (cells s ! ln_key (lnodes s ! a)) = Some (aroot (snd (cs ! j)))"
      using holds_tree_nth [OF h j] by (simp add: a_def)
    have step: "descend_step budget cmp pr n s =
        (if ?c a = 0 then
           (case ln_leftSibling (lnodes s ! a) of
              Some l \<Rightarrow> Ret (bc_right_child_node (cells s ! ln_key (lnodes s ! l)))
            | None \<Rightarrow> Ret (bn_left_most_child (bnodes s ! n)))
         else Ret (bc_right_child_node (cells s ! ln_key (lnodes s ! a))))"
      by (simp add: descend_step_def fa res_bind_def cmp_eq Let_def)
    have child: "spec_child ?c lmc cs =
        (if ?c a = 0 then (if j = 0 then lmc else snd (cs ! (j - 1))) else snd (cs ! j))"
      by (simp add: spec_child_def Some a_def)
    show ?thesis
    proof (cases "?c a = 0")
      case True
      show ?thesis
      proof (cases "j = 0")
        case True
        with \<open>?c a = 0\<close> show ?thesis
          by (simp add: step child left lmc)
      next
        case False
        with j have "j - 1 < length cs" by simp
        from holds_tree_nth [OF h this] False True show ?thesis
          by (simp add: step child left)
      qed
    next
      case False
      then show ?thesis
        by (simp add: step child right)
    qed
  qed
qed

lemma descend_loop_tree:
  "holds_tree s t \<Longrightarrow> size t < fuel \<Longrightarrow> size t < budget \<Longrightarrow>
   descend_loop fuel budget cmp pr (Some (aroot t)) s = Ret (Some (spec_find_leaf (against cmp pr s) t)) \<and>
   bn_isLeaf (bnodes s ! spec_find_leaf (against cmp pr s) t)"
proof (induction "against cmp pr s" t arbitrary: fuel rule: spec_find_leaf.induct)
  case (1 n)
  then obtain f where "fuel = Suc f" by (cases fuel) auto
  with 1 show ?case by simp
next
  case (2 n lmc cs)
  then obtain f where fuel: "fuel = Suc f" by (cases fuel) auto
  let ?t = "spec_child (against cmp pr s) lmc cs"
  from "2.prems"(1) have interior: "\<not> bn_isLeaf (bnodes s ! n)" by simp
  have child: "holds_tree s ?t" by (rule holds_tree_child [OF "2.prems"(1)])
  have smaller: "size ?t < size (ANode n lmc cs)" by (rule size_spec_child)
  with "2.prems" fuel have sf: "size ?t < f" and sb: "size ?t < budget" by auto
  from "2.prems"(3) length_lt_size [of cs n lmc] have "length cs < budget" by simp
  from descend_step_tree [OF "2.prems"(1) this]
  have step: "descend_step budget cmp pr n s = Ret (Some (aroot ?t))" .
  from "2.hyps" [OF child sf sb] show ?case
    by (simp add: fuel interior step res_bind_def)
qed

lemma holds_tree_with_probes: "holds_tree s t \<Longrightarrow> holds_tree (with_probes key k s) t"
proof (induction s t rule: holds_tree.induct)
  case (1 s n)
  then show ?case by (simp add: with_probes_def)
next
  case (2 s n lmc cs)
  from "2.prems" have a: "\<not> bn_isLeaf (bnodes s ! n)" "bn_left_most_child (bnodes s ! n) = Some (aroot lmc)"
    "holds_tree s lmc"
    "dchain (lnodes s) None (map fst cs) (sl_min (lists s ! bn_cellsList (bnodes s ! n)))"
    and cells: "\<forall>(a, t) \<in> set cs.
          ln_key (lnodes s ! a) < length (cells s) \<and>
          bc_right_child_node (cells s ! ln_key (lnodes s ! a)) = Some (aroot t) \<and>
          holds_tree s t"
    by auto
  have "\<forall>(a, t) \<in> set cs.
          ln_key (lnodes (with_probes key k s) ! a) < length (cells (with_probes key k s)) \<and>
          bc_right_child_node (cells (with_probes key k s) ! ln_key (lnodes (with_probes key k s) ! a)) =
            Some (aroot t) \<and>
          holds_tree (with_probes key k s) t"
  proof (intro ballI, clarify)
    fix a t assume in_cs: "(a, t) \<in> set cs"
    with cells have v: "ln_key (lnodes s ! a) < length (cells s)"
      and r: "bc_right_child_node (cells s ! ln_key (lnodes s ! a)) = Some (aroot t)"
      and ht: "holds_tree s t" by auto
    from "2.IH"(2) [OF in_cs refl ht] v r
    show "ln_key (lnodes (with_probes key k s) ! a) < length (cells (with_probes key k s)) \<and>
          bc_right_child_node (cells (with_probes key k s) ! ln_key (lnodes (with_probes key k s) ! a)) =
            Some (aroot t) \<and>
          holds_tree (with_probes key k s) t"
      by (simp add: with_probes_def nth_append)
  qed
  with a "2.IH"(1) show ?case
    by (simp add: with_probes_def)
qed

text \<open>
  The cell that the specified LE-search matches is never greater than the search key: a
  match that is not equal is strictly smaller.
\<close>

lemma spec_le_scan_sign:
  "spec_le_scan c as i lte = Some j \<Longrightarrow>
   lte = Some j \<or> (i \<le> j \<and> j < i + length as \<and> 0 \<le> c (as ! (j - i)))"
proof (induction as arbitrary: i lte)
  case Nil
  then show ?case by simp
next
  case (Cons a as)
  show ?case
  proof (cases "c a = 0")
    case True
    with Cons.prems show ?thesis by simp
  next
    case False
    show ?thesis
    proof (cases "0 < c a")
      case True
      with False Cons.prems have "spec_le_scan c as (Suc i) (Some i) = Some j" by simp
      from Cons.IH [OF this] True show ?thesis
        by (auto simp: Suc_diff_le)
    next
      case neg: False
      with False Cons.prems show ?thesis by simp
    qed
  qed
qed

lemma spec_match_not_greater:
  "spec_le_scan c as 0 None = Some j \<Longrightarrow> j < length as \<and> 0 \<le> c (as ! j)"
  using spec_le_scan_sign [of c as 0 None j] by simp

text \<open>
  C5.  A store holds a tree \<open>t\<close> at its root.  With a budget above the size of \<open>t\<close>,
  \<open>searchForLeafNode\<close> returns the node that the specified descent reaches: at each
  interior node it goes where \<open>spec_child\<close> goes (left-most child on no LE match,
  previous cell's right child or left-most child on an equal match, matched cell's right
  child on a smaller match), and the node returned is a leaf.  The store is left as it
  was but for the one search cell.
\<close>

theorem C5_descent:
  assumes "holds_tree s t" and "bt_root_node (tree s) = Some (aroot t)" and "size t < fuel"
  shows "BB_searchForLeafNode fuel compare key None s =
           Ret (Some (spec_find_leaf (against compare (length (cells s)) (with_probes key 1 s)) t),
                with_probes key 1 s) \<and>
         bn_isLeaf (bnodes s ! spec_find_leaf (against compare (length (cells s)) (with_probes key 1 s)) t)"
proof -
  let ?s1 = "with_probes key 1 s"
  have s1: "createBPlusCell key None None s = (length (cells s), ?s1)"
    by (simp add: createBPlusCell_probe with_probes_def)
  have h1: "holds_tree ?s1 t" by (rule holds_tree_with_probes [OF assms(1)])
  from descend_loop_tree [OF h1 assms(3) assms(3), of compare "length (cells s)"]
  show ?thesis
    by (simp add: BB_searchForLeafNode_def assms(2) s1 res_bind_def) (simp add: with_probes_def)
qed

theorem C5_descent_witness:
  "holds_tree store_ten tree_of_ten \<and>
   bt_root_node (tree store_ten) = Some (aroot tree_of_ten) \<and>
   size tree_of_ten < 20 \<and>
   BB_searchForLeafNode 20 int_compare 70 None store_ten = Ret (Some 1, with_probes 70 1 store_ten) \<and>
   BB_searchForLeafNode 20 int_compare 25 None store_ten = Ret (Some 0, with_probes 25 1 store_ten) \<and>
   BB_searchForLeafNode 20 int_compare 85 None store_ten = Ret (Some 3, with_probes 85 1 store_ten) \<and>
   bn_isLeaf (bnodes store_ten ! 0) \<and> bn_isLeaf (bnodes store_ten ! 1) \<and>
   bn_isLeaf (bnodes store_ten ! 3)"
proof -
  have h: "holds_tree store_ten tree_of_ten"
    by (simp add: store_ten_def tree_of_ten_def)
  have r: "bt_root_node (tree store_ten) = Some (aroot tree_of_ten)"
    by (simp add: store_ten_def tree_of_ten_def)
  have f: "size tree_of_ten < 20"
    by (simp add: tree_of_ten_def)
  have l: "spec_find_leaf (against int_compare (length (cells store_ten)) (with_probes 70 1 store_ten))
             tree_of_ten = 1"
    "spec_find_leaf (against int_compare (length (cells store_ten)) (with_probes 25 1 store_ten))
             tree_of_ten = 0"
    "spec_find_leaf (against int_compare (length (cells store_ten)) (with_probes 85 1 store_ten))
             tree_of_ten = 3"
    by (simp_all add: tree_of_ten_def spec_child_def against_def with_probes_def store_ten_def probe_def
        int_compare_def)
  note found = C5_descent [OF h r f, of int_compare 70] C5_descent [OF h r f, of int_compare 25]
    C5_descent [OF h r f, of int_compare 85]
  from found [unfolded l] show ?thesis
    using h r f by blast
qed

end
